theory Spec2Isabelle
  imports Complex_Main
begin

section \<open>Gaussian diffusion of diffusion/diffusion.py over the reals\<close>

text \<open>
  The module is embedded with every float read as a real number: the tables of the
  constructor, the closed-form noising step and the reverse samplers are the formulas
  of the source, computed exactly. Where numpy or torch would produce \<open>nan\<close> or
  \<open>inf\<close> (a division by zero, the logarithm of zero, the square root of a negative
  number) the model has the value HOL gives the operation; the theorems that depend on
  such a value carry the hypothesis that excludes it. Rounding to float32 is not
  represented.

  Python exceptions are values of \<open>error\<close>; a function that can raise returns
  \<open>error + 'a\<close> with \<open>Inl\<close> for the exception.
\<close>

datatype error =
  ValueError | KeyError | IndexError | RuntimeError | TypeError | NotImplementedError

definition and_then :: "error + 'a \<Rightarrow> ('a \<Rightarrow> error + 'b) \<Rightarrow> error + 'b" where
  "and_then m f = (case m of Inl e \<Rightarrow> Inl e | Inr v \<Rightarrow> f v)"

subsection \<open>The numpy functions the schedules use\<close>

text \<open>
  \<open>numpy.linspace(start, stop, num)\<close> with \<open>endpoint=True\<close>: a negative \<open>num\<close>
  raises ValueError; otherwise the samples are \<open>arange(num) * step + start\<close> with
  \<open>step = (stop - start) / (num - 1)\<close>, and the last of two or more samples is
  overwritten with \<open>stop\<close>. With \<open>num = 1\<close> there is no step and the only sample is
  \<open>start\<close>.
\<close>

definition np_linspace :: "real \<Rightarrow> real \<Rightarrow> int \<Rightarrow> error + real list" where
  "np_linspace start stop num =
     (if num < 0 then Inl ValueError
      else
        let n = nat num;
            dv = num - 1;
            delta = stop - start;
            y = map real [0..<n];
            y1 = (if dv > 0 then
                    (let step = delta / real_of_int dv
                     in if step = 0 then map (\<lambda>v. v / real_of_int dv * delta) y
                        else map (\<lambda>v. v * step) y)
                  else map (\<lambda>v. v * delta) y);
            y2 = map (\<lambda>v. v + start) y1
        in Inr (if n > 1 then y2[n - 1 := stop] else y2))"

text \<open>\<open>numpy.cumprod\<close>: the running product, accumulated from the left.\<close>

fun cumprod_from :: "real \<Rightarrow> real list \<Rightarrow> real list" where
  "cumprod_from acc [] = []"
| "cumprod_from acc (x # xs) = (acc * x) # cumprod_from (acc * x) xs"

definition np_cumprod :: "real list \<Rightarrow> real list" where
  "np_cumprod xs = cumprod_from 1 xs"

text \<open>\<open>numpy.clip(a, a_min, a_max)\<close> is \<open>minimum(a_max, maximum(a, a_min))\<close>.\<close>

definition np_clip :: "real list \<Rightarrow> real \<Rightarrow> real \<Rightarrow> real list" where
  "np_clip a a_min a_max = map (\<lambda>v. min a_max (max v a_min)) a"

subsection \<open>Beta schedules\<close>

definition linear_beta_schedule :: "int \<Rightarrow> real \<Rightarrow> error + real list" where
  "linear_beta_schedule timesteps max_beta = np_linspace (1 / 10000) max_beta timesteps"

text \<open>
  \<open>cosine_beta_schedule(timesteps, s)\<close>. \<open>alphas_cumprod[0]\<close> raises IndexError on
  an empty array (\<open>timesteps = -1\<close>); \<open>a[1:] / a[:-1]\<close> pairs each entry with its
  predecessor.
\<close>

definition cosine_beta_schedule :: "int \<Rightarrow> real \<Rightarrow> error + real list" where
  "cosine_beta_schedule timesteps s =
     (let steps = timesteps + 1
      in and_then (np_linspace 0 (real_of_int steps) steps) (\<lambda>x.
           let alphas_cumprod =
                 map (\<lambda>v. (cos (((v / real_of_int steps) + s) / (1 + s) * pi * (1 / 2))) ^ 2) x
           in case alphas_cumprod of
                [] \<Rightarrow> Inl IndexError
              | a0 # _ \<Rightarrow>
                  let alphas_cumprod = map (\<lambda>v. v / a0) alphas_cumprod;
                      betas = map2 (\<lambda>nxt prv. 1 - nxt / prv) (tl alphas_cumprod) (butlast alphas_cumprod)
                  in Inr (np_clip betas 0 (999 / 1000))))"

text \<open>
  The module-level dictionary \<open>beta_schedule\<close>. Both entries are functions of the
  timestep count and one more number (\<open>max_beta\<close>, respectively \<open>s\<close>).
\<close>

type_synonym schedule_fn = "int \<Rightarrow> real \<Rightarrow> error + real list"

definition beta_schedule :: "string \<Rightarrow> schedule_fn option" where
  "beta_schedule = [''cosine'' \<mapsto> cosine_beta_schedule, ''linear'' \<mapsto> linear_beta_schedule]"

text \<open>Subscripting a dictionary raises KeyError on a missing key.\<close>

definition dict_get :: "('k \<Rightarrow> 'v option) \<Rightarrow> 'k \<Rightarrow> error + 'v" where
  "dict_get d k = (case d k of None \<Rightarrow> Inl KeyError | Some v \<Rightarrow> Inr v)"

subsection \<open>Tensors\<close>

text \<open>
  A state, noise or conditioning tensor of shape \<open>[B, 1, M, T]\<close> (or \<open>[B, F, T]\<close>) is the
  list of its \<open>B\<close> batch entries, each entry the row-major list of its values. A table
  lookup \<open>extract(a, t, x_shape)\<close> has shape \<open>[k, 1, 1, 1]\<close> and is the list of its
  \<open>k\<close> numbers. The batch axis is broadcast as torch does (equal sizes, or one of them
  1); the trailing axes of two tensors must agree, otherwise the operation is a
  RuntimeError: the samplers only combine \<open>x\<close>, noise and oracle outputs of one shape.
  Reshapes and transposes, which only move values, are not represented: every entry is
  kept in the sampler's layout (feature-major, then frame).
\<close>

type_synonym tensor = "real list list"

definition bdim :: "nat \<Rightarrow> nat \<Rightarrow> nat option" where
  "bdim a b = (if a = b then Some a else if b = 1 then Some a else if a = 1 then Some b else None)"

definition expand :: "nat \<Rightarrow> 'a list \<Rightarrow> 'a list" where
  "expand n xs = (if length xs = 1 then replicate n (hd xs) else xs)"

definition bcast2 :: "('a \<Rightarrow> 'b \<Rightarrow> 'c) \<Rightarrow> 'a list \<Rightarrow> 'b list \<Rightarrow> error + 'c list" where
  "bcast2 f xs ys =
     (case bdim (length xs) (length ys) of
        None \<Rightarrow> Inl RuntimeError
      | Some n \<Rightarrow> Inr (map2 f (expand n xs) (expand n ys)))"

text \<open>\<open>c * x\<close> and \<open>x / c\<close> for a looked-up coefficient \<open>c\<close> and a tensor \<open>x\<close>.\<close>

definition coef_mul :: "real list \<Rightarrow> tensor \<Rightarrow> error + tensor" where
  "coef_mul c x = bcast2 (\<lambda>ci blk. map (\<lambda>v. ci * v) blk) c x"

definition div_coef :: "tensor \<Rightarrow> real list \<Rightarrow> error + tensor" where
  "div_coef x c = bcast2 (\<lambda>blk ci. map (\<lambda>v. v / ci) blk) x c"

text \<open>An elementwise operation on two tensors.\<close>

definition tensor_op :: "(real \<Rightarrow> real \<Rightarrow> real) \<Rightarrow> tensor \<Rightarrow> tensor \<Rightarrow> error + tensor" where
  "tensor_op f x y =
     and_then (bcast2 Pair x y) (\<lambda>ps.
       if list_all (\<lambda>p. length (fst p) = length (snd p)) ps
       then Inr (map (\<lambda>p. map2 f (fst p) (snd p)) ps)
       else Inl RuntimeError)"

definition tadd :: "tensor \<Rightarrow> tensor \<Rightarrow> error + tensor" where
  "tadd = tensor_op (\<lambda>a b. a + b)"

definition tsub :: "tensor \<Rightarrow> tensor \<Rightarrow> error + tensor" where
  "tsub = tensor_op (\<lambda>a b. a - b)"

text \<open>An operation with a Python number, such as \<open>3 * noise_pred\<close> or \<open>(...) / 2\<close>.\<close>

definition tmap :: "(real \<Rightarrow> real) \<Rightarrow> tensor \<Rightarrow> tensor" where
  "tmap f x = map (map f) x"

text \<open>
  \<open>extract(a, t, x_shape)\<close>: \<open>a.gather(-1, t)\<close> raises RuntimeError on an index outside
  \<open>[0, len(a))\<close> (gather takes no negative index); the reshape to \<open>[b, 1, ..., 1]\<close>
  uses \<open>x_shape\<close> for its rank only. (\<open>extract\<close> is a reserved word of the
  theory language, hence the suffix.)
\<close>

definition extract_at :: "real list \<Rightarrow> int list \<Rightarrow> error + real list" where
  "extract_at a t =
     (if list_all (\<lambda>i. 0 \<le> i \<and> i < int (length a)) t
      then Inr (map (\<lambda>i. a ! nat i) t)
      else Inl RuntimeError)"

text \<open>
  Random draws. A source of standard normal numbers gives the value at each position
  (batch entry, offset) of a draw; \<open>torch.randn_like(x)\<close> and \<open>noise_like(x.shape, ...)\<close>
  fill the shape of \<open>x\<close> from it. With \<open>repeat=True\<close> one entry is drawn and repeated
  over the batch.
\<close>

type_synonym gauss = "nat \<Rightarrow> nat \<Rightarrow> real"

definition randn_like :: "gauss \<Rightarrow> tensor \<Rightarrow> tensor" where
  "randn_like g x = map (\<lambda>b. map (g b) [0..<length (x ! b)]) [0..<length x]"

definition noise_like :: "gauss \<Rightarrow> tensor \<Rightarrow> bool \<Rightarrow> tensor" where
  "noise_like g x repeat =
     (if repeat then map (\<lambda>b. map (g 0) [0..<length (x ! b)]) [0..<length x]
      else randn_like g x)"

definition default :: "'a option \<Rightarrow> 'a \<Rightarrow> 'a" where
  "default val d = (case val of Some v \<Rightarrow> v | None \<Rightarrow> d)"

text \<open>
  \<open>torch.cat([x[:,0,:,:], cond], dim=-2)\<close> appends the feature rows of \<open>cond\<close> to those
  of \<open>x\<close> in every batch entry; \<open>cat\<close> does not broadcast, so the batch sizes must be
  equal. (The frame counts must be equal too; the flat entries do not carry them.)
\<close>

definition cat_features :: "tensor \<Rightarrow> tensor \<Rightarrow> error + tensor" where
  "cat_features x cond =
     (if length x = length cond then Inr (map2 (\<lambda>a b. a @ b) x cond) else Inl RuntimeError)"

subsection \<open>The engine's buffers\<close>

record GaussianDiffusion =
  out_dims :: nat
  num_timesteps :: int
  k_step :: int
  betas :: "real list"
  alphas_cumprod :: "real list"
  alphas_cumprod_prev :: "real list"
  sqrt_alphas_cumprod :: "real list"
  sqrt_one_minus_alphas_cumprod :: "real list"
  log_one_minus_alphas_cumprod :: "real list"
  sqrt_recip_alphas_cumprod :: "real list"
  sqrt_recipm1_alphas_cumprod :: "real list"
  posterior_variance :: "real list"
  posterior_log_variance_clipped :: "real list"
  posterior_mean_coef1 :: "real list"
  posterior_mean_coef2 :: "real list"
  spec_min :: real
  spec_max :: real

text \<open>
  Lines 53 to 79 of the constructor, from the beta table on. The arrays have the
  length \<open>T\<close> of \<open>betas\<close>, except \<open>alphas_cumprod_prev\<close> when \<open>T = 0\<close> (then it is
  \<open>[1.]\<close>, and numpy broadcasts it against the empty arrays to an empty array, which
  is also what pairing the entries gives). \<open>spec_min\<close> and \<open>spec_max\<close> are tensors of
  shape \<open>[1, 1, 1]\<close> (\<open>out_dims \<ge> 1\<close>), that is, one number each.
\<close>

definition register_buffers ::
  "real list \<Rightarrow> nat \<Rightarrow> int \<Rightarrow> real \<Rightarrow> real \<Rightarrow> GaussianDiffusion" where
  "register_buffers bs od kst smin smax =
     (let alphas = map (\<lambda>b. 1 - b) bs;
          ac = np_cumprod alphas;
          ac_prev = 1 # butlast ac;
          pv = map2 (\<lambda>b (p, a). b * (1 - p) / (1 - a)) bs (zip ac_prev ac)
      in \<lparr> out_dims = od,
           num_timesteps = int (length bs),
           k_step = kst,
           betas = bs,
           alphas_cumprod = ac,
           alphas_cumprod_prev = ac_prev,
           sqrt_alphas_cumprod = map sqrt ac,
           sqrt_one_minus_alphas_cumprod = map (\<lambda>a. sqrt (1 - a)) ac,
           log_one_minus_alphas_cumprod = map (\<lambda>a. ln (1 - a)) ac,
           sqrt_recip_alphas_cumprod = map (\<lambda>a. sqrt (1 / a)) ac,
           sqrt_recipm1_alphas_cumprod = map (\<lambda>a. sqrt (1 / a - 1)) ac,
           posterior_variance = pv,
           posterior_log_variance_clipped = map (\<lambda>v. ln (max v (1 / 10 ^ 20))) pv,
           posterior_mean_coef1 =
             map2 (\<lambda>b (p, a). b * sqrt p / (1 - a)) bs (zip ac_prev ac),
           posterior_mean_coef2 =
             map2 (\<lambda>al (p, a). (1 - p) * sqrt al / (1 - a)) alphas (zip ac_prev ac),
           spec_min = smin,
           spec_max = smax \<rparr>)"

text \<open>
  \<open>GaussianDiffusion.__init__(denoise_fn, out_dims, timesteps, k_step, max_beta,
  spec_min, spec_max)\<close>, with the dictionary it reads as a parameter. The denoiser is
  kept outside the record and passed to the samplers.
\<close>

definition GaussianDiffusion_init_with ::
  "(string \<Rightarrow> schedule_fn option) \<Rightarrow> nat \<Rightarrow> int \<Rightarrow> int \<Rightarrow> real \<Rightarrow> real \<Rightarrow> real
     \<Rightarrow> error + GaussianDiffusion" where
  "GaussianDiffusion_init_with registry od timesteps kst max_beta smin smax =
     and_then (dict_get registry ''linear'') (\<lambda>schedule.
     and_then (schedule timesteps max_beta) (\<lambda>bs.
       Inr (register_buffers bs od kst smin smax)))"

definition GaussianDiffusion_init ::
  "nat \<Rightarrow> int \<Rightarrow> int \<Rightarrow> real \<Rightarrow> real \<Rightarrow> real \<Rightarrow> error + GaussianDiffusion" where
  "GaussianDiffusion_init = GaussianDiffusion_init_with beta_schedule"

subsection \<open>Forward process and normaliser\<close>

definition predict_start_from_noise ::
  "GaussianDiffusion \<Rightarrow> tensor \<Rightarrow> int list \<Rightarrow> tensor \<Rightarrow> error + tensor" where
  "predict_start_from_noise self x_t t noise =
     and_then (extract_at (sqrt_recip_alphas_cumprod self) t) (\<lambda>c1.
     and_then (coef_mul c1 x_t) (\<lambda>a.
     and_then (extract_at (sqrt_recipm1_alphas_cumprod self) t) (\<lambda>c2.
     and_then (coef_mul c2 noise) (\<lambda>b.
       tsub a b))))"

definition q_posterior ::
  "GaussianDiffusion \<Rightarrow> tensor \<Rightarrow> tensor \<Rightarrow> int list \<Rightarrow> error + (tensor \<times> real list \<times> real list)" where
  "q_posterior self x_start x_t t =
     and_then (extract_at (posterior_mean_coef1 self) t) (\<lambda>c1.
     and_then (coef_mul c1 x_start) (\<lambda>a.
     and_then (extract_at (posterior_mean_coef2 self) t) (\<lambda>c2.
     and_then (coef_mul c2 x_t) (\<lambda>b.
     and_then (tadd a b) (\<lambda>posterior_mean.
     and_then (extract_at (posterior_variance self) t) (\<lambda>pvar.
     and_then (extract_at (posterior_log_variance_clipped self) t) (\<lambda>plog.
       Inr (posterior_mean, pvar, plog))))))))"

definition q_sample ::
  "GaussianDiffusion \<Rightarrow> gauss \<Rightarrow> tensor \<Rightarrow> int list \<Rightarrow> tensor option \<Rightarrow> error + tensor" where
  "q_sample self g x_start t noise_arg =
     (let noise = default noise_arg (randn_like g x_start)
      in and_then (extract_at (sqrt_alphas_cumprod self) t) (\<lambda>c1.
         and_then (coef_mul c1 x_start) (\<lambda>a.
         and_then (extract_at (sqrt_one_minus_alphas_cumprod self) t) (\<lambda>c2.
         and_then (coef_mul c2 noise) (\<lambda>b.
           tadd a b)))))"

definition norm_spec :: "GaussianDiffusion \<Rightarrow> tensor \<Rightarrow> tensor" where
  "norm_spec self x = tmap (\<lambda>v. (v - spec_min self) / (spec_max self - spec_min self) * 2 - 1) x"

definition denorm_spec :: "GaussianDiffusion \<Rightarrow> tensor \<Rightarrow> tensor" where
  "denorm_spec self x = tmap (\<lambda>v. (v + 1) / 2 * (spec_max self - spec_min self) + spec_min self) x"

subsection \<open>The denoiser and the sampler's state\<close>

text \<open>
  The timestep handed to the denoiser is the tensor \<open>t\<close> or, in one place, the Python
  integer 0. The denoiser is a function of the model input, the timestep and the
  reference; \<open>.sample[:, None, :, :]\<close> only adds the channel axis to its output.
\<close>

datatype tstep = TTensor "int list" | TScalar int

type_synonym 'r denoise_fn = "tensor \<Rightarrow> tstep \<Rightarrow> 'r \<Rightarrow> tensor"

text \<open>
  What a sampling call changes: \<open>self.noise_list\<close> (the newest entry last), and the
  sequence of denoiser calls made so far, each with its input and timestep, as a
  recording stub of the denoiser would keep it. An exception leaves the state as it was
  when raised.
\<close>

record sampler_state =
  noise_list :: "tensor list"
  calls :: "(tensor \<times> tstep) list"

type_synonym 'a act = "sampler_state \<Rightarrow> (error + 'a) \<times> sampler_state"

definition ret :: "'a \<Rightarrow> 'a act" where
  "ret v = (\<lambda>s. (Inr v, s))"

definition lift :: "error + 'a \<Rightarrow> 'a act" where
  "lift m = (\<lambda>s. (m, s))"

definition seq :: "'a act \<Rightarrow> ('a \<Rightarrow> 'b act) \<Rightarrow> 'b act" where
  "seq m f = (\<lambda>s. case m s of (Inl e, s') \<Rightarrow> (Inl e, s') | (Inr v, s') \<Rightarrow> f v s')"

definition call_denoise :: "'r denoise_fn \<Rightarrow> tensor \<Rightarrow> tstep \<Rightarrow> 'r \<Rightarrow> tensor act" where
  "call_denoise denoise_fn inp t reference_mel =
     (\<lambda>s. (Inr (denoise_fn inp t reference_mel), s\<lparr>calls := calls s @ [(inp, t)]\<rparr>))"

definition get_noise_list :: "(tensor list) act" where
  "get_noise_list = (\<lambda>s. (Inr (noise_list s), s))"

text \<open>\<open>deque(maxlen=n).append(v)\<close>: the deque keeps its last \<open>n\<close> entries.\<close>

definition deque_append :: "nat \<Rightarrow> 'a list \<Rightarrow> 'a \<Rightarrow> 'a list" where
  "deque_append maxlen xs v = (let ys = xs @ [v] in drop (length ys - maxlen) ys)"

definition noise_list_append :: "tensor \<Rightarrow> unit act" where
  "noise_list_append v = (\<lambda>s. (Inr (), s\<lparr>noise_list := deque_append 4 (noise_list s) v\<rparr>))"

definition noise_list_reset :: "unit act" where
  "noise_list_reset = (\<lambda>s. (Inr (), s\<lparr>noise_list := []\<rparr>))"

subsection \<open>Reverse samplers\<close>

definition p_mean_variance ::
  "'r denoise_fn \<Rightarrow> GaussianDiffusion \<Rightarrow> tensor \<Rightarrow> int list \<Rightarrow> tensor \<Rightarrow> 'r
     \<Rightarrow> (tensor \<times> real list \<times> real list) act" where
  "p_mean_variance denoise_fn self x t cond reference_mel =
     seq (lift (cat_features x cond)) (\<lambda>denoise_input.
     seq (call_denoise denoise_fn denoise_input (TTensor t) reference_mel) (\<lambda>noise_pred.
     seq (lift (predict_start_from_noise self x t noise_pred)) (\<lambda>x_recon.
       lift (q_posterior self (tmap (\<lambda>v. min 1 (max v (- 1))) x_recon) x t))))"

text \<open>
  \<open>p_sample\<close>. The mask \<open>1 - (t == 0)\<close> is reshaped to \<open>[b, 1, 1, 1]\<close> with \<open>b\<close> the
  batch size of \<open>x\<close>, which raises RuntimeError unless \<open>t\<close> has \<open>b\<close> entries.
\<close>

definition p_sample ::
  "'r denoise_fn \<Rightarrow> GaussianDiffusion \<Rightarrow> gauss \<Rightarrow> tensor \<Rightarrow> int list \<Rightarrow> tensor \<Rightarrow> 'r \<Rightarrow> bool
     \<Rightarrow> tensor act" where
  "p_sample denoise_fn self g x t cond reference_mel repeat_noise =
     seq (p_mean_variance denoise_fn self x t cond reference_mel) (\<lambda>(model_mean, _, model_log_variance).
       let noise = noise_like g x repeat_noise
       in if length t \<noteq> length x then lift (Inl RuntimeError)
          else
            let nonzero_mask = map (\<lambda>i. 1 - (if i = 0 then 1 else 0)) t
            in lift
                 (and_then (bcast2 (\<lambda>m lv. m * exp ((1 / 2) * lv)) nonzero_mask model_log_variance) (\<lambda>c.
                  and_then (coef_mul c noise) (\<lambda>z.
                    tadd model_mean z))))"

text \<open>Line 118, the DDIM update from the two looked-up cumulative alphas.\<close>

definition ddim_x_prev :: "real list \<Rightarrow> real list \<Rightarrow> tensor \<Rightarrow> tensor \<Rightarrow> error + tensor" where
  "ddim_x_prev a_t a_prev x noise_pred =
     and_then (div_coef x (map sqrt a_t)) (\<lambda>u.
     and_then (bcast2 (\<lambda>ap ac. sqrt ((1 - ap) / ap) - sqrt ((1 - ac) / ac)) a_prev a_t) (\<lambda>c.
     and_then (coef_mul c noise_pred) (\<lambda>v.
     and_then (tadd u v) (\<lambda>w.
       coef_mul (map sqrt a_prev) w))))"

definition p_sample_ddim ::
  "'r denoise_fn \<Rightarrow> GaussianDiffusion \<Rightarrow> tensor \<Rightarrow> int list \<Rightarrow> int \<Rightarrow> tensor \<Rightarrow> 'r \<Rightarrow> tensor act" where
  "p_sample_ddim denoise_fn self x t interval cond reference_mel =
     seq (lift (extract_at (alphas_cumprod self) t)) (\<lambda>a_t.
     seq (lift (extract_at (alphas_cumprod self) (map (\<lambda>i. max (i - interval) 0) t))) (\<lambda>a_prev.
     seq (lift (cat_features x cond)) (\<lambda>denoise_input.
     seq (call_denoise denoise_fn denoise_input (TTensor t) reference_mel) (\<lambda>noise_pred.
       lift (ddim_x_prev a_t a_prev x noise_pred)))))"

text \<open>The local function \<open>get_x_pred\<close> of \<open>p_sample_plms\<close>; \<open>interval\<close> is its free variable.\<close>

definition get_x_pred ::
  "GaussianDiffusion \<Rightarrow> int \<Rightarrow> tensor \<Rightarrow> tensor \<Rightarrow> int list \<Rightarrow> error + tensor" where
  "get_x_pred self interval x noise_t t =
     and_then (extract_at (alphas_cumprod self) t) (\<lambda>a_t.
     and_then (extract_at (alphas_cumprod self) (map (\<lambda>i. max (i - interval) 0) t)) (\<lambda>a_prev.
       let a_t_sq = map sqrt a_t;
           a_prev_sq = map sqrt a_prev
       in and_then (bcast2 (\<lambda>ap ac. ap - ac) a_prev a_t) (\<lambda>d.
          and_then (bcast2 (\<lambda>ts ps. 1 / (ts * (ts + ps))) a_t_sq a_prev_sq) (\<lambda>c1.
          and_then (coef_mul c1 x) (\<lambda>u.
          and_then (bcast2 (\<lambda>ap ac. sqrt ((1 - ap) * ac) + sqrt ((1 - ac) * ap)) a_prev a_t) (\<lambda>r.
          and_then (bcast2 (\<lambda>ts rr. 1 / (ts * rr)) a_t_sq r) (\<lambda>c2.
          and_then (coef_mul c2 noise_t) (\<lambda>v.
          and_then (tsub u v) (\<lambda>w.
          and_then (coef_mul d w) (\<lambda>x_delta.
            tadd x x_delta))))))))))"

text \<open>
  The builtin \<open>max(t - interval, 0)\<close> on a tensor: Python evaluates \<open>0 > t - interval\<close>,
  a boolean tensor, and takes its truth value, which raises RuntimeError unless the
  tensor has exactly one element. The result is the integer 0 when that element is
  negative and the tensor itself otherwise.
\<close>

definition py_max0 :: "int list \<Rightarrow> error + tstep" where
  "py_max0 v = (case v of [a] \<Rightarrow> Inr (if 0 > a then TScalar 0 else TTensor [a]) | _ \<Rightarrow> Inl RuntimeError)"

definition p_sample_plms ::
  "'r denoise_fn \<Rightarrow> GaussianDiffusion \<Rightarrow> tensor \<Rightarrow> int list \<Rightarrow> int \<Rightarrow> tensor \<Rightarrow> 'r \<Rightarrow> tensor act" where
  "p_sample_plms denoise_fn self x t interval cond reference_mel =
     seq (lift (cat_features x cond)) (\<lambda>denoise_input.
     seq get_noise_list (\<lambda>nl.
     seq (call_denoise denoise_fn denoise_input (TTensor t) reference_mel) (\<lambda>noise_pred.
     seq (if length nl = 0 then
            seq (lift (get_x_pred self interval x noise_pred t)) (\<lambda>x_pred.
            seq (lift (cat_features x_pred cond)) (\<lambda>denoise_input.
            seq (lift (py_max0 (map (\<lambda>i. i - interval) t))) (\<lambda>t_prev.
            seq (call_denoise denoise_fn denoise_input t_prev reference_mel) (\<lambda>noise_pred_prev.
              lift (and_then (tadd noise_pred noise_pred_prev) (\<lambda>a.
                    Inr (tmap (\<lambda>v. v / 2) a)))))))
          else if length nl = 1 then
            lift (and_then (tsub (tmap (\<lambda>v. 3 * v) noise_pred) (nl ! (length nl - 1))) (\<lambda>a.
                  Inr (tmap (\<lambda>v. v / 2) a)))
          else if length nl = 2 then
            lift (and_then (tsub (tmap (\<lambda>v. 23 * v) noise_pred)
                                 (tmap (\<lambda>v. 16 * v) (nl ! (length nl - 1)))) (\<lambda>a.
                  and_then (tadd a (tmap (\<lambda>v. 5 * v) (nl ! (length nl - 2)))) (\<lambda>b.
                  Inr (tmap (\<lambda>v. v / 12) b))))
          else
            lift (and_then (tsub (tmap (\<lambda>v. 55 * v) noise_pred)
                                 (tmap (\<lambda>v. 59 * v) (nl ! (length nl - 1)))) (\<lambda>a.
                  and_then (tadd a (tmap (\<lambda>v. 37 * v) (nl ! (length nl - 2)))) (\<lambda>b.
                  and_then (tsub b (tmap (\<lambda>v. 9 * v) (nl ! (length nl - 3)))) (\<lambda>c.
                  Inr (tmap (\<lambda>v. v / 24) c)))))) (\<lambda>noise_pred_prime.
     seq (lift (get_x_pred self interval x noise_pred_prime t)) (\<lambda>x_prev.
     seq (noise_list_append noise_pred) (\<lambda>_.
       ret x_prev))))))"

subsection \<open>The inference path of \<open>forward\<close>\<close>

text \<open>
  \<open>range(0, stop, step)\<close>: a zero step raises ValueError; the length is the one Python
  computes.
\<close>

definition py_range0 :: "int \<Rightarrow> int \<Rightarrow> error + int list" where
  "py_range0 stop step =
     (if step = 0 then Inl ValueError
      else
        let n = (if step > 0 \<and> 0 < stop then 1 + (stop - 1) div step
                 else if step < 0 \<and> stop < 0 then 1 + (- 1 - stop) div (- step)
                 else 0)
        in Inr (map (\<lambda>k. int k * step) [0..<nat n]))"

text \<open>A \<open>for\<close> loop that threads \<open>x\<close> through a sampler step; an exception ends it.\<close>

fun for_each :: "(tensor \<Rightarrow> int \<Rightarrow> tensor act) \<Rightarrow> tensor \<Rightarrow> int list \<Rightarrow> tensor act" where
  "for_each body x [] = ret x"
| "for_each body x (i # rest) = seq (body x i) (\<lambda>x'. for_each body x' rest)"

text \<open>The slice \<open>a[:t]\<close>: a negative \<open>t\<close> counts from the end.\<close>

definition py_prefix :: "'a list \<Rightarrow> int \<Rightarrow> 'a list" where
  "py_prefix a t = (if t \<ge> 0 then take (nat t) a else take (length a - nat (- t)) a)"

text \<open>
  The fast solvers (DPM-Solver, UniPC) live in other modules. They are a parameter of
  the model: given the solver's name, the schedule prefix \<open>betas[:t]\<close>, the start \<open>x\<close>,
  the step budget, the conditioning, the reference and the progress flag, a solver is
  some action on the sampler's state.
\<close>

type_synonym 'r solver =
  "string \<Rightarrow> real list \<Rightarrow> tensor \<Rightarrow> int \<Rightarrow> tensor \<Rightarrow> 'r \<Rightarrow> bool \<Rightarrow> tensor act"

text \<open>
  \<open>forward(condition, reference_mel, gt_spec, infer=True, infer_speedup, method, k_step,
  use_tqdm)\<close>. \<open>cond\<close> is the conditioning already transposed to \<open>[B, F, T]\<close>, and
  \<open>frames\<close> its frame count \<open>T\<close>, which the flat entries do not carry; \<open>gt_spec\<close> is given
  in the sampler's layout. \<open>g0\<close> supplies the random start and \<open>gs i\<close> the fresh noise of
  the ancestral step at timestep \<open>i\<close>. The module imports the package \<open>tqdm\<close> (line 8):
  \<open>tqdm.tqdm(...)\<close> wraps an iterator without changing it, whereas calling the module
  itself, \<open>tqdm(...)\<close> on line 267, raises TypeError once its arguments are evaluated.
\<close>

definition forward_infer ::
  "'r denoise_fn \<Rightarrow> 'r solver \<Rightarrow> GaussianDiffusion \<Rightarrow> gauss \<Rightarrow> (int \<Rightarrow> gauss) \<Rightarrow> tensor \<Rightarrow> nat \<Rightarrow> 'r
     \<Rightarrow> tensor option \<Rightarrow> int \<Rightarrow> string option \<Rightarrow> int option \<Rightarrow> bool \<Rightarrow> tensor act" where
  "forward_infer denoise_fn solver self g0 gs cond frames reference_mel gt_spec infer_speedup
       method k_step_arg use_tqdm =
     (let b = length cond
      in seq (case (gt_spec, k_step_arg) of
                (Some gt, Some ks) \<Rightarrow>
                  seq (lift (q_sample self g0 (norm_spec self gt) [ks - 1] None)) (\<lambda>x. ret (ks, x))
              | _ \<Rightarrow>
                  ret (k_step self, map (\<lambda>bi. map (g0 bi) [0..<out_dims self * frames]) [0..<b]))
           (\<lambda>(t, x).
      seq (if method \<noteq> None \<and> infer_speedup > 1 then
             (if method = Some ''dpm-solver'' then
                solver ''dpm-solver'' (py_prefix (betas self) t) x (t div infer_speedup) cond
                  reference_mel use_tqdm
              else if method = Some ''unipc'' then
                solver ''unipc'' (py_prefix (betas self) t) x (t div infer_speedup) cond
                  reference_mel use_tqdm
              else if method = Some ''pndm'' then
                seq noise_list_reset (\<lambda>_.
                seq (lift (py_range0 t infer_speedup)) (\<lambda>r.
                  for_each (\<lambda>x i. p_sample_plms denoise_fn self x (replicate b i) infer_speedup
                                     cond reference_mel) x (rev r)))
              else if method = Some ''ddim'' then
                seq (lift (py_range0 t infer_speedup)) (\<lambda>r.
                  for_each (\<lambda>x i. p_sample_ddim denoise_fn self x (replicate b i) infer_speedup
                                     cond reference_mel) x (rev r))
              else lift (Inl NotImplementedError))
           else
             (if use_tqdm then
                seq (lift (py_range0 t 1)) (\<lambda>r. lift (Inl TypeError))
              else
                seq (lift (py_range0 t 1)) (\<lambda>r.
                  for_each (\<lambda>x i. p_sample denoise_fn self (gs i) x (replicate b i) cond
                                     reference_mel False) x (rev r))))
          (\<lambda>x. ret (denorm_spec self x))))"

section \<open>Properties\<close>

subsection \<open>The linear schedule\<close>

lemma np_linspace_closed:
  assumes "2 \<le> num"
  shows "np_linspace a b num =
           Inr (map (\<lambda>i. a + real i * ((b - a) / real_of_int (num - 1))) [0..<nat num])"
proof -
  let ?n = "nat num"
  let ?d = "real_of_int (num - 1)"
  let ?f = "\<lambda>i. a + real i * ((b - a) / ?d)"
  have d: "?d > 0" and dn: "?d = real (?n - 1)" and n: "1 < ?n"
    using assms by (simp_all add: of_nat_diff)
  have y2: "map (\<lambda>v. v + a)
              (if (b - a) / ?d = 0 then map (\<lambda>v. v / ?d * (b - a)) (map real [0..<?n])
               else map (\<lambda>v. v * ((b - a) / ?d)) (map real [0..<?n]))
            = map ?f [0..<?n]"
    using d by (auto simp: algebra_simps)
  have last: "?f (?n - 1) = b"
    using d dn by (simp add: field_simps)
  have "(map ?f [0..<?n])[?n - 1 := b] = map ?f [0..<?n]"
    using n last by (intro nth_equalityI) (auto simp: nth_list_update)
  then show ?thesis
    using assms n y2 unfolding np_linspace_def Let_def by simp
qed

lemma np_linspace_neg: "num < 0 \<Longrightarrow> np_linspace a b num = Inl ValueError"
  by (simp add: np_linspace_def)

lemma np_linspace_0: "np_linspace a b 0 = Inr []"
  by (simp add: np_linspace_def)

lemma np_linspace_1: "np_linspace a b 1 = Inr [a]"
  by (simp add: np_linspace_def)

lemma np_linspace_length: "np_linspace a b num = Inr ys \<Longrightarrow> length ys = nat num"
  by (auto simp: np_linspace_def Let_def split: if_splits)

text \<open>
  Claim C6, as the code has it. For \<open>T \<ge> 2\<close> the linear schedule is exactly \<open>T\<close> values,
  the first \<open>1e-4\<close>, the last \<open>max_beta\<close>, consecutive values the same distance apart.
  For \<open>T = 1\<close> the schedule is the single value \<open>1e-4\<close>, whatever \<open>max_beta\<close> is. For
  \<open>T = 1000\<close> and \<open>max_beta = 0.02\<close> the table starts at \<open>1e-4\<close>, ends at \<open>0.02\<close> and is
  strictly increasing.
\<close>

theorem linear_beta_schedule_spacing:
  "(2 \<le> T \<longrightarrow>
      (\<exists>bs. linear_beta_schedule T max_beta = Inr bs \<and> length bs = nat T \<and>
            bs ! 0 = 1 / 10000 \<and> bs ! (nat T - 1) = max_beta \<and>
            (\<forall>i. Suc i < nat T \<longrightarrow>
                 bs ! Suc i - bs ! i = (max_beta - 1 / 10000) / real_of_int (T - 1)))) \<and>
   linear_beta_schedule 1 max_beta = Inr [1 / 10000] \<and>
   (\<exists>bs. linear_beta_schedule 1000 (2 / 100) = Inr bs \<and> length bs = 1000 \<and>
         bs ! 0 = 1 / 10000 \<and> bs ! 999 = 2 / 100 \<and> sorted_wrt (\<lambda>a b. a < b) bs)"
proof (intro conjI impI)
  assume T: "2 \<le> T"
  define st where "st = (max_beta - 1 / 10000) / real_of_int (T - 1)"
  define bs where "bs = map (\<lambda>i. 1 / 10000 + real i * st) [0..<nat T]"
  have eq: "linear_beta_schedule T max_beta = Inr bs"
    unfolding linear_beta_schedule_def bs_def st_def using T by (rule np_linspace_closed)
  have d: "real_of_int (T - 1) = real (nat T - 1)" "real (nat T - 1) > 0"
    using T by (simp_all add: of_nat_diff)
  have "real (nat T - 1) * st = max_beta - 1 / 10000"
    using d by (simp add: st_def)
  then have last: "bs ! (nat T - 1) = max_beta"
    using T by (simp add: bs_def)
  have step: "\<forall>i. Suc i < nat T \<longrightarrow> bs ! Suc i - bs ! i = st"
    by (simp add: bs_def algebra_simps)
  have "length bs = nat T" "bs ! 0 = 1 / 10000"
    using T by (simp_all add: bs_def)
  with eq last step
  show "\<exists>bs. linear_beta_schedule T max_beta = Inr bs \<and> length bs = nat T \<and>
            bs ! 0 = 1 / 10000 \<and> bs ! (nat T - 1) = max_beta \<and>
            (\<forall>i. Suc i < nat T \<longrightarrow>
                 bs ! Suc i - bs ! i = (max_beta - 1 / 10000) / real_of_int (T - 1))"
    unfolding st_def by blast
next
  show "linear_beta_schedule 1 max_beta = Inr [1 / 10000]"
    by (simp add: linear_beta_schedule_def np_linspace_def)
next
  let ?st = "(2 / 100 - 1 / 10000) / real_of_int (1000 - 1)"
  let ?bs = "map (\<lambda>i. 1 / 10000 + real i * ?st) [0..<nat 1000]"
  have eq: "linear_beta_schedule 1000 (2 / 100) = Inr ?bs"
    unfolding linear_beta_schedule_def by (rule np_linspace_closed) simp
  have incr: "sorted_wrt (\<lambda>a b. a < b) ?bs"
    by (simp add: sorted_wrt_map sorted_wrt_iff_nth_less)
  have "?bs ! 999 = 2 / 100" by simp
  with eq incr show "\<exists>bs. linear_beta_schedule 1000 (2 / 100) = Inr bs \<and> length bs = 1000 \<and>
         bs ! 0 = 1 / 10000 \<and> bs ! 999 = 2 / 100 \<and> sorted_wrt (\<lambda>a b. a < b) bs"
    by (intro exI[of _ ?bs]) simp
qed

theorem linear_beta_schedule_spacing_witness:
  "(2::int) \<le> 3 \<and>
   (\<exists>bs. linear_beta_schedule 3 (2 / 100) = Inr bs \<and> length bs = 3 \<and>
         bs ! 0 = 1 / 10000 \<and> bs ! 2 = 2 / 100 \<and> bs ! 1 - bs ! 0 = 199 / 20000 \<and>
         bs ! 2 - bs ! 1 = 199 / 20000)"
proof -
  have "\<exists>bs. linear_beta_schedule 3 (2 / 100) = Inr bs \<and> length bs = nat 3 \<and>
            bs ! 0 = 1 / 10000 \<and> bs ! (nat 3 - 1) = 2 / 100 \<and>
            (\<forall>i. Suc i < nat 3 \<longrightarrow>
                 bs ! Suc i - bs ! i = (2 / 100 - 1 / 10000) / real_of_int (3 - 1))"
    using linear_beta_schedule_spacing [of 3 "2 / 100"] by simp
  then obtain bs where bs: "linear_beta_schedule 3 (2 / 100) = Inr bs" "length bs = 3"
      "bs ! 0 = 1 / 10000" "bs ! 2 = 2 / 100"
      and st: "\<forall>i. Suc i < 3 \<longrightarrow> bs ! Suc i - bs ! i = (2 / 100 - 1 / 10000) / 2"
    by auto
  from st have "bs ! Suc 0 - bs ! 0 = 199 / 20000" "bs ! Suc (Suc 0) - bs ! Suc 0 = 199 / 20000"
    by auto
  then have "bs ! 1 - bs ! 0 = 199 / 20000" "bs ! 2 - bs ! 1 = 199 / 20000"
    by (simp_all add: numeral_2_eq_2)
  with bs show ?thesis by auto
qed

text \<open>
  Claim C6 as stated fails at \<open>T = 1\<close>: the one value returned is \<open>1e-4\<close>, and
  \<open>max_beta = 0.02\<close> is not among the values.
\<close>

theorem linear_beta_schedule_single_counterexample:
  "linear_beta_schedule 1 (2 / 100) = Inr [1 / 10000] \<and> last [1 / 10000 :: real] \<noteq> 2 / 100"
  by (simp add: linear_beta_schedule_def np_linspace_def)

subsection \<open>The constructor\<close>

lemma beta_schedule_linear: "dict_get beta_schedule ''linear'' = Inr linear_beta_schedule"
  by (simp add: dict_get_def beta_schedule_def)

lemma init_unfold:
  "GaussianDiffusion_init od T ks mb smin smax =
     and_then (linear_beta_schedule T mb) (\<lambda>bs. Inr (register_buffers bs od ks smin smax))"
  by (simp add: GaussianDiffusion_init_def GaussianDiffusion_init_with_def beta_schedule_linear
      and_then_def)

lemma init_InrD:
  assumes "GaussianDiffusion_init od T ks mb smin smax = Inr self"
  obtains bs where "linear_beta_schedule T mb = Inr bs" "self = register_buffers bs od ks smin smax"
  using assms unfolding init_unfold and_then_def by (auto split: sum.splits)

lemma length_cumprod_from [simp]: "length (cumprod_from a xs) = length xs"
  by (induction xs arbitrary: a) auto

lemma length_np_cumprod [simp]: "length (np_cumprod xs) = length xs"
  by (simp add: np_cumprod_def)

text \<open>
  Claim C4 as stated fails at \<open>T = 0\<close>: the constructor returns an engine, with empty
  tables.
\<close>

theorem init_zero_timesteps_counterexample:
  "GaussianDiffusion_init 128 0 1000 (2 / 100) (- 12) 2 =
     Inr \<lparr> out_dims = 128, num_timesteps = 0, k_step = 1000, betas = [],
           alphas_cumprod = [], alphas_cumprod_prev = [1], sqrt_alphas_cumprod = [],
           sqrt_one_minus_alphas_cumprod = [], log_one_minus_alphas_cumprod = [],
           sqrt_recip_alphas_cumprod = [], sqrt_recipm1_alphas_cumprod = [],
           posterior_variance = [], posterior_log_variance_clipped = [],
           posterior_mean_coef1 = [], posterior_mean_coef2 = [],
           spec_min = - 12, spec_max = 2 \<rparr>"
  by (simp add: init_unfold linear_beta_schedule_def np_linspace_def and_then_def
      register_buffers_def np_cumprod_def)

text \<open>
  Claim C4, as the code has it. A negative timestep count makes \<open>numpy.linspace\<close>, and
  with it the schedule and the constructor, raise ValueError; every count from 0 on
  builds an engine with that many betas. The constructor takes no schedule family; a
  family other than linear and cosine is a missing key of the dictionary
  \<open>beta_schedule\<close>, whose lookup raises KeyError.
\<close>

theorem init_failures:
  "(T < 0 \<longrightarrow> linear_beta_schedule T max_beta = Inl ValueError \<and>
              GaussianDiffusion_init od T ks max_beta smin smax = Inl ValueError) \<and>
   (0 \<le> T \<longrightarrow> (\<exists>self. GaussianDiffusion_init od T ks max_beta smin smax = Inr self \<and>
                      length (betas self) = nat T \<and> num_timesteps self = T)) \<and>
   (family \<noteq> ''linear'' \<and> family \<noteq> ''cosine'' \<longrightarrow> dict_get beta_schedule family = Inl KeyError)"
proof (intro conjI impI)
  assume "T < 0"
  then show "linear_beta_schedule T max_beta = Inl ValueError"
    by (simp add: linear_beta_schedule_def np_linspace_def)
  then show "GaussianDiffusion_init od T ks max_beta smin smax = Inl ValueError"
    by (simp add: init_unfold and_then_def)
next
  assume T: "0 \<le> T"
  then obtain bs where bs: "linear_beta_schedule T max_beta = Inr bs"
    by (auto simp: linear_beta_schedule_def np_linspace_def Let_def)
  then have "length bs = nat T"
    unfolding linear_beta_schedule_def by (rule np_linspace_length)
  with bs T show "\<exists>self. GaussianDiffusion_init od T ks max_beta smin smax = Inr self \<and>
                      length (betas self) = nat T \<and> num_timesteps self = T"
    by (simp add: init_unfold and_then_def register_buffers_def Let_def)
next
  assume "family \<noteq> ''linear'' \<and> family \<noteq> ''cosine''"
  then show "dict_get beta_schedule family = Inl KeyError"
    by (simp add: dict_get_def beta_schedule_def)
qed

theorem init_failures_witness:
  "(- 1 :: int) < 0 \<and> linear_beta_schedule (- 1) (2 / 100) = Inl ValueError \<and>
   GaussianDiffusion_init 128 (- 1) 1000 (2 / 100) (- 12) 2 = Inl ValueError \<and>
   (0::int) \<le> 2 \<and>
   (\<exists>self. GaussianDiffusion_init 128 2 1000 (2 / 100) (- 12) 2 = Inr self \<and>
           length (betas self) = 2 \<and> num_timesteps self = 2) \<and>
   ''sigmoid'' \<noteq> ''linear'' \<and> ''sigmoid'' \<noteq> ''cosine'' \<and>
   dict_get beta_schedule ''sigmoid'' = Inl KeyError"
  using init_failures [of "- 1" "2 / 100" 128 1000 "- 12" 2 "''sigmoid''"]
        init_failures [of 2 "2 / 100" 128 1000 "- 12" 2 "''sigmoid''"]
  by simp

text \<open>
  Claim C9. The constructor reads only the entry \<open>linear\<close> of the dictionary: replacing
  or removing the entry \<open>cosine\<close> changes nothing, and whatever the arguments, the
  engine's beta table is the linear schedule and every buffer is derived from it.
\<close>

theorem init_always_linear:
  "GaussianDiffusion_init_with (beta_schedule(''cosine'' := other)) od T ks max_beta smin smax =
     GaussianDiffusion_init od T ks max_beta smin smax \<and>
   GaussianDiffusion_init od T ks max_beta smin smax =
     and_then (linear_beta_schedule T max_beta) (\<lambda>bs. Inr (register_buffers bs od ks smin smax)) \<and>
   (\<forall>self. GaussianDiffusion_init od T ks max_beta smin smax = Inr self \<longrightarrow>
      linear_beta_schedule T max_beta = Inr (betas self) \<and>
      self = register_buffers (betas self) od ks smin smax)"
proof (intro conjI allI impI)
  show "GaussianDiffusion_init_with (beta_schedule(''cosine'' := other)) od T ks max_beta smin smax =
     GaussianDiffusion_init od T ks max_beta smin smax"
    by (simp add: GaussianDiffusion_init_def GaussianDiffusion_init_with_def dict_get_def)
  show "GaussianDiffusion_init od T ks max_beta smin smax =
     and_then (linear_beta_schedule T max_beta) (\<lambda>bs. Inr (register_buffers bs od ks smin smax))"
    by (rule init_unfold)
next
  fix self
  assume a: "GaussianDiffusion_init od T ks max_beta smin smax = Inr self"
  then obtain bs where bs: "linear_beta_schedule T max_beta = Inr bs"
      "self = register_buffers bs od ks smin smax"
    by (rule init_InrD)
  then have b: "betas self = bs"
    by (simp add: register_buffers_def Let_def)
  with bs show "linear_beta_schedule T max_beta = Inr (betas self)" by simp
  from bs b show "self = register_buffers (betas self) od ks smin smax" by simp
qed

theorem init_always_linear_witness:
  "GaussianDiffusion_init_with (beta_schedule(''cosine'' := None)) 128 3 1000 (2 / 100) (- 12) 2 =
     GaussianDiffusion_init 128 3 1000 (2 / 100) (- 12) 2 \<and>
   (\<exists>self. GaussianDiffusion_init 128 3 1000 (2 / 100) (- 12) 2 = Inr self \<and>
      linear_beta_schedule 3 (2 / 100) = Inr (betas self) \<and>
      betas self = [1 / 10000, 201 / 20000, 2 / 100])"
proof -
  have e: "linear_beta_schedule 3 (2 / 100) = Inr [1 / 10000, 201 / 20000, 2 / 100]"
    by (simp add: linear_beta_schedule_def np_linspace_def upt_rec)
  then obtain self where s: "GaussianDiffusion_init 128 3 1000 (2 / 100) (- 12) 2 = Inr self"
    by (simp add: init_unfold and_then_def)
  with init_always_linear [of None 128 3 1000 "2 / 100" "- 12" 2] e show ?thesis
    by auto
qed

subsection \<open>The normaliser\<close>

text \<open>
  Claim C5. With \<open>spec_max \<noteq> spec_min\<close>, \<open>denorm_spec (norm_spec x) = x\<close> for every
  tensor \<open>x\<close>, in exact arithmetic.
\<close>

theorem denorm_norm_roundtrip:
  assumes "spec_max self \<noteq> spec_min self"
  shows "denorm_spec self (norm_spec self x) = x"
proof -
  have pt: "((v - spec_min self) / (spec_max self - spec_min self) * 2 - 1 + 1) / 2 *
              (spec_max self - spec_min self) + spec_min self = v" for v
    using assms by (simp add: field_simps)
  have "map (map (\<lambda>v. (v + 1) / 2 * (spec_max self - spec_min self) + spec_min self))
          (map (map (\<lambda>v. (v - spec_min self) / (spec_max self - spec_min self) * 2 - 1)) x) =
        map (map (\<lambda>v. v)) x"
    unfolding map_map o_def pt ..
  then show ?thesis
    by (simp add: denorm_spec_def norm_spec_def tmap_def)
qed

theorem denorm_norm_roundtrip_witness:
  "spec_max (register_buffers [] 128 1000 (- 12) 2) \<noteq> spec_min (register_buffers [] 128 1000 (- 12) 2) \<and>
   norm_spec (register_buffers [] 128 1000 (- 12) 2) [[- 12, 2, - 2]] = [[- 1, 1, 3 / 7]] \<and>
   denorm_spec (register_buffers [] 128 1000 (- 12) 2) [[- 1, 1, 3 / 7]] = [[- 12, 2, - 2]]"
proof -
  let ?e = "register_buffers [] 128 1000 (- 12) 2"
  have ne: "spec_max ?e \<noteq> spec_min ?e"
    by (simp add: register_buffers_def Let_def)
  have n: "norm_spec ?e [[- 12, 2, - 2]] = [[- 1, 1, 3 / 7]]"
    by (simp add: norm_spec_def tmap_def register_buffers_def Let_def)
  from denorm_norm_roundtrip [OF ne, of "[[- 12, 2, - 2]]"] n ne show ?thesis
    by simp
qed

subsection \<open>Sequencing and broadcasting\<close>

lemma and_then_simps [simp]:
  "and_then (Inl e) f = Inl e"
  "and_then (Inr v) f = f v"
  by (simp_all add: and_then_def)

lemma seq_simps [simp]:
  "seq (lift (Inl e)) f = lift (Inl e)"
  "seq (lift (Inr v)) f = f v"
  "seq (ret v) f = f v"
  by (auto simp: seq_def lift_def ret_def fun_eq_iff)

lemma seq_Pair [simp]:
  "seq (Pair (Inl e)) f = Pair (Inl e)"
  "seq (Pair (Inr v)) f = f v"
  by (auto simp: seq_def fun_eq_iff)

lemma lift_apply [simp]: "lift m s = (m, s)"
  by (simp add: lift_def)

lemma ret_apply [simp]: "ret v s = (Inr v, s)"
  by (simp add: ret_def)

lemma seq_call_denoise [simp]:
  "seq (call_denoise den inp t ref) f s = f (den inp t ref) (s\<lparr>calls := calls s @ [(inp, t)]\<rparr>)"
  by (simp add: seq_def call_denoise_def)

lemma seq_get_noise_list [simp]: "seq get_noise_list f s = f (noise_list s) s"
  by (simp add: seq_def get_noise_list_def)

lemma seq_noise_list_append [simp]:
  "seq (noise_list_append v) f s = f () (s\<lparr>noise_list := deque_append 4 (noise_list s) v\<rparr>)"
  by (simp add: seq_def noise_list_append_def)

lemma seq_noise_list_reset [simp]:
  "seq noise_list_reset f s = f () (s\<lparr>noise_list := []\<rparr>)"
  by (simp add: seq_def noise_list_reset_def)

lemma seq_lift_cases:
  "seq (lift m) f s = (case m of Inl e \<Rightarrow> (Inl e, s) | Inr v \<Rightarrow> f v s)"
  by (cases m) simp_all

lemma seq_assoc: "seq (seq m f) g = seq m (\<lambda>v. seq (f v) g)"
  by (auto simp: seq_def fun_eq_iff split: prod.splits sum.splits)

lemma seq_if: "seq (if c then m else n) f = (if c then seq m f else seq n f)"
  by simp

text \<open>
  Claim C3, as the code has it. In the bootstrap branch (empty noise history), with a
  batch of one timestep \<open>a\<close>, a call that returns has called the denoiser twice: at
  \<open>a\<close>, and then at \<open>max(a - interval, 0)\<close>, that is at \<open>a - interval\<close> when this is not
  negative and at 0 otherwise. The timestep of the extra call is floored at 0.
\<close>

theorem plms_bootstrap_timestep:
  assumes "noise_list s = []"
    and "p_sample_plms den self x [a] interval cond ref s = (Inr x', s')"
  shows "map snd (calls s') =
           map snd (calls s) @
             [TTensor [a], if a - interval < 0 then TScalar 0 else TTensor [a - interval]]"
  using assms
  by (auto simp: p_sample_plms_def seq_def lift_def ret_def call_denoise_def get_noise_list_def
      noise_list_append_def py_max0_def split: sum.splits prod.splits if_splits)


lemmas act_defs = seq_def lift_def ret_def call_denoise_def get_noise_list_def
  noise_list_append_def noise_list_reset_def

lemmas tensor_defs = cat_features_def extract_at_def bcast2_def bdim_def expand_def coef_mul_def
  div_coef_def tensor_op_def tadd_def tsub_def tmap_def

lemma register_buffers_sel [simp]:
  "out_dims (register_buffers bs od ks smin smax) = od"
  "num_timesteps (register_buffers bs od ks smin smax) = int (length bs)"
  "k_step (register_buffers bs od ks smin smax) = ks"
  "betas (register_buffers bs od ks smin smax) = bs"
  "alphas_cumprod (register_buffers bs od ks smin smax) = np_cumprod (map (\<lambda>b. 1 - b) bs)"
  "sqrt_alphas_cumprod (register_buffers bs od ks smin smax) =
     map sqrt (np_cumprod (map (\<lambda>b. 1 - b) bs))"
  "sqrt_one_minus_alphas_cumprod (register_buffers bs od ks smin smax) =
     map (\<lambda>a. sqrt (1 - a)) (np_cumprod (map (\<lambda>b. 1 - b) bs))"
  "sqrt_recip_alphas_cumprod (register_buffers bs od ks smin smax) =
     map (\<lambda>a. sqrt (1 / a)) (np_cumprod (map (\<lambda>b. 1 - b) bs))"
  "sqrt_recipm1_alphas_cumprod (register_buffers bs od ks smin smax) =
     map (\<lambda>a. sqrt (1 / a - 1)) (np_cumprod (map (\<lambda>b. 1 - b) bs))"
  "spec_min (register_buffers bs od ks smin smax) = smin"
  "spec_max (register_buffers bs od ks smin smax) = smax"
  by (simp_all add: register_buffers_def Let_def)

lemma init_one_step:
  "GaussianDiffusion_init 2 1 1 (2 / 100) (- 12) 2 = Inr (register_buffers [1 / 10000] 2 1 (- 12) 2)"
  by (simp add: GaussianDiffusion_init_def GaussianDiffusion_init_with_def dict_get_def
      beta_schedule_def linear_beta_schedule_def np_linspace_def)

lemma plms_bootstrap_run:
  "p_sample_plms (\<lambda>inp t r. inp) (register_buffers [1 / 10000] 2 1 (- 12) 2) [[1 / 2, 1 / 4]] [0] 1
       [[]] () \<lparr>noise_list = [], calls = []\<rparr> =
     (Inr [[1 / 2, 1 / 4]],
      \<lparr>noise_list = [[[1 / 2, 1 / 4]]],
       calls = [([[1 / 2, 1 / 4]], TTensor [0]), ([[1 / 2, 1 / 4]], TScalar 0)]\<rparr>)"
  by (simp add: p_sample_plms_def act_defs get_x_pred_def tensor_defs py_max0_def
      deque_append_def np_cumprod_def)

text \<open>
  Claim C3 as stated fails at \<open>t = 0\<close>, \<open>interval = 1\<close>: the extra call is made at 0,
  not at the unclamped \<open>t - interval = -1\<close>.
\<close>

theorem plms_bootstrap_clamped_counterexample:
  "GaussianDiffusion_init 2 1 1 (2 / 100) (- 12) 2 = Inr (register_buffers [1 / 10000] 2 1 (- 12) 2) \<and>
   map snd (calls (snd (p_sample_plms (\<lambda>inp t r. inp) (register_buffers [1 / 10000] 2 1 (- 12) 2)
        [[1 / 2, 1 / 4]] [0] 1 [[]] () \<lparr>noise_list = [], calls = []\<rparr>))) =
     [TTensor [0], TScalar 0] \<and>
   TScalar 0 \<noteq> TTensor [0 - 1]"
  using init_one_step plms_bootstrap_run by simp

theorem plms_bootstrap_timestep_witness:
  "noise_list \<lparr>noise_list = [], calls = []\<rparr> = [] \<and>
   p_sample_plms (\<lambda>inp t r. inp) (register_buffers [1 / 10000] 2 1 (- 12) 2) [[1 / 2, 1 / 4]] [0] 1
       [[]] () \<lparr>noise_list = [], calls = []\<rparr> =
     (Inr [[1 / 2, 1 / 4]],
      \<lparr>noise_list = [[[1 / 2, 1 / 4]]],
       calls = [([[1 / 2, 1 / 4]], TTensor [0]), ([[1 / 2, 1 / 4]], TScalar 0)]\<rparr>) \<and>
   map snd (calls \<lparr>noise_list = [[[1 / 2, 1 / 4]]],
                   calls = [([[1 / 2, 1 / 4]], TTensor [0]), ([[1 / 2, 1 / 4 :: real]], TScalar 0)]\<rparr>) =
     map snd (calls \<lparr>noise_list = ([] :: tensor list), calls = ([] :: (tensor \<times> tstep) list)\<rparr>) @
     [TTensor [0], if (0::int) - 1 < 0 then TScalar 0 else TTensor [0 - 1]]"
  using plms_bootstrap_timestep [OF _ plms_bootstrap_run] plms_bootstrap_run
  by simp

lemma expand_same [simp]: "length xs = n \<Longrightarrow> expand n xs = xs"
  by (cases xs) (auto simp: expand_def)

lemma length_expand: "length c = n \<or> length c = 1 \<Longrightarrow> length (expand n c) = n"
  by (auto simp: expand_def)

lemma expand_map: "expand n (map f t) = map f (expand n t)"
  by (cases t) (auto simp: expand_def)

lemma set_expand: "set (expand n t) \<subseteq> set t"
  by (cases t) (auto simp: expand_def)

lemma bdim_left: "a = b \<or> a = 1 \<Longrightarrow> bdim a b = Some b"
  by (auto simp: bdim_def)

lemma bcast2_left:
  "length c = length x \<or> length c = 1 \<Longrightarrow> bcast2 f c x = Inr (map2 f (expand (length x) c) x)"
  by (simp add: bcast2_def bdim_left)

lemma bcast2_same: "length c = length x \<Longrightarrow> bcast2 f c x = Inr (map2 f c x)"
  by (simp add: bcast2_left)

lemma bdim_right: "b = a \<or> b = 1 \<Longrightarrow> bdim a b = Some a"
  by (auto simp: bdim_def)

lemma bcast2_right:
  "length c = length x \<or> length c = 1 \<Longrightarrow> bcast2 f x c = Inr (map2 f x (expand (length x) c))"
  by (simp add: bcast2_def bdim_right)

lemma zip_Pair_map2: "map2 Pair xs ys = zip xs ys"
  by (induction xs ys rule: list_induct2') auto

lemma tensor_op_same:
  assumes "map length a = map length b"
  shows "tensor_op f a b = Inr (map2 (map2 f) a b)"
proof -
  have l: "length a = length b"
    using assms by (rule map_eq_imp_length_eq)
  have "length (a ! i) = length (b ! i)" if "i < length a" for i
    using assms that l by (metis nth_map)
  then have "list_all (\<lambda>p. length (fst p) = length (snd p)) (zip a b)"
    using l by (auto simp: list_all_length)
  moreover have "map (\<lambda>p. map2 f (fst p) (snd p)) (zip a b) = map2 (map2 f) a b"
    by (rule map_cong) auto
  ultimately show ?thesis
    using l by (simp add: tensor_op_def bcast2_same zip_Pair_map2)
qed

lemma q_sample_single_ok:
  assumes "0 \<le> i" "i < int (length bs)"
  shows "\<exists>x0. q_sample (register_buffers bs od ks smin smax) g x [i] None = Inr x0"
proof -
  have "map length (map2 (\<lambda>ci. map ((*) ci)) (expand (length x) [c1]) x) =
        map length (map2 (\<lambda>ci. map ((*) ci)) (expand (length x) [c2]) (randn_like g x))" for c1 c2 :: real
    by (intro nth_equalityI) (auto simp: length_expand randn_like_def)
  then show ?thesis
    using assms
    by (simp add: q_sample_def default_def extract_at_def coef_mul_def bcast2_left
        tadd_def tensor_op_same length_expand randn_like_def)
qed

lemma py_range0_step1: "\<exists>r. py_range0 t 1 = Inr r"
  by (simp add: py_range0_def Let_def)

text \<open>
  Claim C10, as the code has it. On the raw ancestral path (\<open>method\<close> is None or
  \<open>infer_speedup \<le> 1\<close>) with \<open>use_tqdm = True\<close>, the call raises TypeError and leaves
  the sampler's state as it was: no denoiser call and no sampling step is made. This
  holds for the random start at any \<open>k_step\<close>, and for the start from a ground truth at
  a step \<open>1 \<le> k_step \<le> T\<close>, with \<open>T\<close> the number of timesteps of the engine.
\<close>

theorem ancestral_tqdm_type_error:
  assumes init: "GaussianDiffusion_init od T ks0 max_beta smin smax = Inr self"
    and path: "method = None \<or> infer_speedup \<le> 1"
    and start: "gt_spec = None \<or> k_step_arg = None \<or>
                (\<exists>ks. k_step_arg = Some ks \<and> 1 \<le> ks \<and> ks \<le> num_timesteps self)"
  shows "forward_infer den solver self g0 gs cond frames ref gt_spec infer_speedup method
           k_step_arg True s = (Inl TypeError, s)"
proof -
  from init obtain bs where self: "self = register_buffers bs od ks0 smin smax"
    by (rule init_InrD)
  have branch: "\<not> (method \<noteq> None \<and> infer_speedup > 1)"
    using path by auto
  have range: "py_range0 t 1 = Inr (map (\<lambda>k. int k) [0..<nat t])" for t
    by (simp add: py_range0_def)
  show ?thesis
  proof (cases "gt_spec = None \<or> k_step_arg = None")
    case True
    then show ?thesis
      using branch by (auto simp: forward_infer_def Let_def range split: option.splits)
  next
    case False
    with start obtain gt ks where g: "gt_spec = Some gt" "k_step_arg = Some ks"
        "1 \<le> ks" "ks \<le> int (length bs)"
      by (auto simp: self)
    then obtain x0 where "q_sample self g0 (norm_spec self gt) [ks - 1] None = Inr x0"
      using q_sample_single_ok [of "ks - 1" bs od ks0 smin smax g0 "norm_spec self gt"]
      by (auto simp: self)
    with g show ?thesis
      using branch by (auto simp: forward_infer_def Let_def range)
  qed
qed

theorem ancestral_tqdm_type_error_witness:
  "GaussianDiffusion_init 2 1 1 (2 / 100) (- 12) 2 = Inr (register_buffers [1 / 10000] 2 1 (- 12) 2) \<and>
   forward_infer (\<lambda>inp t r. inp) (\<lambda>name bs x steps cond r bar. ret x)
       (register_buffers [1 / 10000] 2 1 (- 12) 2) (\<lambda>b j. 0) (\<lambda>i b j. 0) [[0]] 1 ()
       None 10 None None True \<lparr>noise_list = [], calls = []\<rparr> =
     (Inl TypeError, \<lparr>noise_list = [], calls = []\<rparr>) \<and>
   forward_infer (\<lambda>inp t r. inp) (\<lambda>name bs x steps cond r bar. ret x)
       (register_buffers [1 / 10000] 2 1 (- 12) 2) (\<lambda>b j. 0) (\<lambda>i b j. 0) [[0]] 1 ()
       (Some [[- 5, 1]]) 1 (Some ''ddim'') (Some 1) True \<lparr>noise_list = [], calls = []\<rparr> =
     (Inl TypeError, \<lparr>noise_list = [], calls = []\<rparr>)"
proof -
  have i: "GaussianDiffusion_init 2 1 1 (2 / 100) (- 12) 2 =
             Inr (register_buffers [1 / 10000] 2 1 (- 12) 2)"
    using init_one_step by simp
  have a: "forward_infer (\<lambda>inp t r. inp) (\<lambda>name bs x steps cond r bar. ret x)
       (register_buffers [1 / 10000] 2 1 (- 12) 2) (\<lambda>b j. 0) (\<lambda>i b j. 0) [[0]] 1 ()
       None 10 None None True \<lparr>noise_list = [], calls = []\<rparr> =
     (Inl TypeError, \<lparr>noise_list = [], calls = []\<rparr>)"
    by (rule ancestral_tqdm_type_error [OF i]) simp_all
  have b: "forward_infer (\<lambda>inp t r. inp) (\<lambda>name bs x steps cond r bar. ret x)
       (register_buffers [1 / 10000] 2 1 (- 12) 2) (\<lambda>b j. 0) (\<lambda>i b j. 0) [[0]] 1 ()
       (Some [[- 5, 1]]) 1 (Some ''ddim'') (Some 1) True \<lparr>noise_list = [], calls = []\<rparr> =
     (Inl TypeError, \<lparr>noise_list = [], calls = []\<rparr>)"
    by (rule ancestral_tqdm_type_error [OF i]) simp_all
  from i a b show ?thesis by simp
qed

text \<open>
  Claim C10 as stated fails for a start from a ground truth at a step beyond the table:
  with \<open>T = 1\<close> and \<open>k_step = 2\<close> (so \<open>t = 2 \<ge> 1\<close>), \<open>method\<close> None and \<open>use_tqdm = True\<close>,
  \<open>q_sample\<close> on line 196 looks up index \<open>k_step - 1 = 1\<close> in tables of length 1, and the
  call raises the RuntimeError of \<open>gather\<close> before it reaches line 267.
\<close>

theorem ancestral_late_start_counterexample:
  "GaussianDiffusion_init 2 1 1 (2 / 100) (- 12) 2 = Inr (register_buffers [1 / 10000] 2 1 (- 12) 2) \<and>
   num_timesteps (register_buffers [1 / 10000] 2 1 (- 12) 2) = 1 \<and>
   forward_infer (\<lambda>inp t r. inp) (\<lambda>name bs x steps cond r bar. ret x)
       (register_buffers [1 / 10000] 2 1 (- 12) 2) (\<lambda>b j. 0) (\<lambda>i b j. 0) [[0]] 1 ()
       (Some [[- 5, 1]]) 10 None (Some 2) True \<lparr>noise_list = [], calls = []\<rparr> =
     (Inl RuntimeError, \<lparr>noise_list = [], calls = []\<rparr>) \<and>
   RuntimeError \<noteq> TypeError"
  using init_one_step
  by (simp add: forward_infer_def Let_def q_sample_def extract_at_def)

lemma deque_append_fifo:
  "length xs \<le> 4 \<Longrightarrow> deque_append 4 xs v = (if length xs = 4 then tl xs else xs) @ [v]"
  by (cases xs) (auto simp: deque_append_def)

lemma length_deque_append: "length (deque_append 4 xs v) = min 4 (length xs + 1)"
  by (auto simp: deque_append_def)

lemma plms_step_history:
  assumes "p_sample_plms den self x t interval cond ref s = (r, s')"
  shows "case r of
           Inl e \<Rightarrow> noise_list s' = noise_list s
         | Inr x' \<Rightarrow> (\<exists>inp. cat_features x cond = Inr inp \<and>
                      noise_list s' = deque_append 4 (noise_list s) (den inp (TTensor t) ref))"
  using assms
  by (auto simp: p_sample_plms_def act_defs split: sum.splits prod.splits if_splits)

lemma plms_step_bound:
  assumes "p_sample_plms den self x t interval cond ref s = (r, s')" "length (noise_list s) \<le> 4"
  shows "length (noise_list s') \<le> 4"
  using plms_step_history [OF assms(1)] assms(2)
  by (cases r) (auto simp: length_deque_append)

lemma for_each_plms_bound:
  assumes "for_each (\<lambda>x i. p_sample_plms den self x (replicate b i) interval cond ref) x ts s = (r, s')"
    and "length (noise_list s) \<le> 4"
  shows "length (noise_list s') \<le> 4"
  using assms
proof (induction ts arbitrary: x s)
  case Nil
  then show ?case by simp
next
  case (Cons i ts)
  obtain r1 s1 where step: "p_sample_plms den self x (replicate b i) interval cond ref s = (r1, s1)"
    by (cases "p_sample_plms den self x (replicate b i) interval cond ref s")
  then have b1: "length (noise_list s1) \<le> 4"
    using Cons.prems(2) by (rule plms_step_bound)
  show ?case
  proof (cases r1)
    case (Inl e)
    with Cons.prems(1) step b1 show ?thesis
      by (simp add: seq_def)
  next
    case (Inr x1)
    with Cons.prems(1) step have
      "for_each (\<lambda>x i. p_sample_plms den self x (replicate b i) interval cond ref) x1 ts s1 = (r, s')"
      by (simp add: seq_def)
    then show ?thesis
      using b1 by (rule Cons.IH)
  qed
qed

lemma for_each_append:
  "for_each body x (ts @ us) = seq (for_each body x ts) (\<lambda>x'. for_each body x' us)"
  by (induction ts arbitrary: x) (simp_all add: seq_assoc)

lemma forward_pndm_unfold:
  assumes "1 < infer_speedup"
  shows "forward_infer den solver self g0 gs cond frames ref gt_spec infer_speedup (Some ''pndm'')
           k_step_arg use_tqdm s =
         (case (case (gt_spec, k_step_arg) of
                  (Some gt, Some ks) \<Rightarrow>
                    and_then (q_sample self g0 (norm_spec self gt) [ks - 1] None) (\<lambda>x. Inr (ks, x))
                | _ \<Rightarrow> Inr (k_step self,
                            map (\<lambda>bi. map (g0 bi) [0..<out_dims self * frames]) [0..<length cond])) of
            Inl e \<Rightarrow> (Inl e, s)
          | Inr (t, x) \<Rightarrow>
              seq (seq (lift (py_range0 t infer_speedup)) (\<lambda>r.
                     for_each (\<lambda>x i. p_sample_plms den self x (replicate (length cond) i)
                                        infer_speedup cond ref) x (rev r)))
                  (\<lambda>x. ret (denorm_spec self x)) (s\<lparr>noise_list := []\<rparr>))"
proof (cases "gt_spec = None \<or> k_step_arg = None")
  case True
  then show ?thesis
    using assms by (auto simp: forward_infer_def Let_def seq_assoc split: option.splits)
next
  case False
  then obtain gt ks where g: "gt_spec = Some gt" "k_step_arg = Some ks"
    by auto
  show ?thesis
    using assms unfolding g
    by (cases "q_sample self g0 (norm_spec self gt) [ks - 1] None")
       (simp_all add: forward_infer_def Let_def seq_assoc)
qed

text \<open>
  Claim C8. A call of \<open>p_sample_plms\<close> that returns has appended exactly one entry to the
  noise history, the noise prediction of the denoiser at the current \<open>x\<close> and \<open>t\<close>; the
  append keeps the last four entries, so a full history loses its oldest entry; a loop
  of PLMS steps started on a history of at most four entries never leaves more than
  four, however it ends; the same holds for a whole pndm run of \<open>forward\<close>; and the run
  clears the history first: its result and final history do not depend on the history
  an earlier run left behind.
\<close>

theorem plms_noise_history:
  "(\<forall>x' s'. p_sample_plms den self x t interval cond ref s = (Inr x', s') \<longrightarrow>
      (\<exists>inp. cat_features x cond = Inr inp \<and>
             noise_list s' = deque_append 4 (noise_list s) (den inp (TTensor t) ref))) \<and>
   (length (xs :: tensor list) \<le> 4 \<longrightarrow>
      deque_append 4 xs v = (if length xs = 4 then tl xs else xs) @ [v] \<and>
      length (deque_append 4 xs v) \<le> 4) \<and>
   (\<forall>r s'. length (noise_list s) \<le> 4 \<and>
      for_each (\<lambda>x i. p_sample_plms den self x (replicate b i) interval cond ref) x ts s = (r, s')
      \<longrightarrow> length (noise_list s') \<le> 4) \<and>
   (\<forall>r s'. 1 < infer_speedup \<and> length (noise_list s) \<le> 4 \<and>
      forward_infer den solver self g0 gs cond frames ref gt_spec infer_speedup (Some ''pndm'')
        k_step_arg use_tqdm s = (r, s')
      \<longrightarrow> length (noise_list s') \<le> 4) \<and>
   (\<forall>y s' stale. 1 < infer_speedup \<and>
      forward_infer den solver self g0 gs cond frames ref gt_spec infer_speedup (Some ''pndm'')
        k_step_arg use_tqdm s = (Inr y, s')
      \<longrightarrow> forward_infer den solver self g0 gs cond frames ref gt_spec infer_speedup (Some ''pndm'')
            k_step_arg use_tqdm (s\<lparr>noise_list := stale\<rparr>) = (Inr y, s'))"
proof (intro conjI allI impI)
  fix x' s'
  assume "p_sample_plms den self x t interval cond ref s = (Inr x', s')"
  from plms_step_history [OF this]
  show "\<exists>inp. cat_features x cond = Inr inp \<and>
             noise_list s' = deque_append 4 (noise_list s) (den inp (TTensor t) ref)"
    by simp
next
  assume "length xs \<le> 4"
  then show "deque_append 4 xs v = (if length xs = 4 then tl xs else xs) @ [v]"
    by (rule deque_append_fifo)
  show "length (deque_append 4 xs v) \<le> 4"
    by (simp add: length_deque_append)
next
  fix r s'
  assume a: "length (noise_list s) \<le> 4 \<and>
      for_each (\<lambda>x i. p_sample_plms den self x (replicate b i) interval cond ref) x ts s = (r, s')"
  from a have l: "length (noise_list s) \<le> 4" ..
  from a have
    "for_each (\<lambda>x i. p_sample_plms den self x (replicate b i) interval cond ref) x ts s = (r, s')" ..
  then show "length (noise_list s') \<le> 4"
    using l by (rule for_each_plms_bound)
next
  fix r s'
  assume a: "1 < infer_speedup \<and> length (noise_list s) \<le> 4 \<and>
      forward_infer den solver self g0 gs cond frames ref gt_spec infer_speedup (Some ''pndm'')
        k_step_arg use_tqdm s = (r, s')"
  then have sp: "1 < infer_speedup" and len: "length (noise_list s) \<le> 4" by auto
  let ?start = "case (gt_spec, k_step_arg) of
                  (Some gt, Some ks) \<Rightarrow>
                    and_then (q_sample self g0 (norm_spec self gt) [ks - 1] None) (\<lambda>x. Inr (ks, x))
                | _ \<Rightarrow> Inr (k_step self,
                            map (\<lambda>bi. map (g0 bi) [0..<out_dims self * frames]) [0..<length cond])"
  show "length (noise_list s') \<le> 4"
  proof (cases ?start)
    case (Inl e)
    with a show ?thesis
      by (auto simp: forward_pndm_unfold [OF sp])
  next
    case (Inr p)
    obtain t0 x0 where p: "p = (t0, x0)" by (cases p)
    obtain rg where rg: "py_range0 t0 infer_speedup = Inr rg"
      using sp by (simp add: py_range0_def Let_def)
    obtain r1 s1 where loop:
      "for_each (\<lambda>x i. p_sample_plms den self x (replicate (length cond) i) infer_speedup cond ref)
         x0 (rev rg) (s\<lparr>noise_list := []\<rparr>) = (r1, s1)"
      by (metis surj_pair)
    then have b1: "length (noise_list s1) \<le> 4"
      by (rule for_each_plms_bound) simp
    from a Inr p rg loop have "s' = s1"
      by (cases r1) (simp_all add: forward_pndm_unfold [OF sp] seq_assoc seq_def)
    with b1 show ?thesis by simp
  qed
next
  fix y s' stale
  assume a: "1 < infer_speedup \<and>
      forward_infer den solver self g0 gs cond frames ref gt_spec infer_speedup (Some ''pndm'')
        k_step_arg use_tqdm s = (Inr y, s')"
  then have sp: "1 < infer_speedup" by simp
  from a show "forward_infer den solver self g0 gs cond frames ref gt_spec infer_speedup
      (Some ''pndm'') k_step_arg use_tqdm (s\<lparr>noise_list := stale\<rparr>) = (Inr y, s')"
    unfolding forward_pndm_unfold [OF sp]
    by (auto split: sum.splits)
qed

lemma step_eval_aux:
  "get_x_pred (register_buffers [1 / 10, 1 / 10, 1 / 10, 1 / 10, 1 / 10, 1 / 10] 2 6 (- 12) 2) 0
     [[1 / 2, 1 / 4]] [[a, b]] [i] =
   (if 0 \<le> i \<and> i < 6 then Inr [[1 / 2, 1 / 4]] else Inl RuntimeError)"
  by (simp add: get_x_pred_def tensor_defs np_cumprod_def)

lemma six_steps:
  "for_each (\<lambda>x i. p_sample_plms (\<lambda>inp t r. case t of TTensor [k] \<Rightarrow> [[of_int k, 0]] | _ \<Rightarrow> [[0, 0]])
                     (register_buffers [1 / 10, 1 / 10, 1 / 10, 1 / 10, 1 / 10, 1 / 10] 2 6 (- 12) 2)
                     x (replicate 1 i) 0 [[]] ())
     [[1 / 2, 1 / 4]] [5, 4, 3, 2, 1, 0] \<lparr>noise_list = [], calls = []\<rparr> =
   (Inr [[1 / 2, 1 / 4]],
    \<lparr>noise_list = [[[3, 0]], [[2, 0]], [[1, 0]], [[0, 0]]],
     calls = [([[1 / 2, 1 / 4]], TTensor [5]), ([[1 / 2, 1 / 4]], TTensor [5]),
              ([[1 / 2, 1 / 4]], TTensor [4]), ([[1 / 2, 1 / 4]], TTensor [3]),
              ([[1 / 2, 1 / 4]], TTensor [2]), ([[1 / 2, 1 / 4]], TTensor [1]),
              ([[1 / 2, 1 / 4]], TTensor [0])]\<rparr>)"
  by (simp add: p_sample_plms_def act_defs step_eval_aux cat_features_def tensor_op_def tadd_def
      tsub_def tmap_def bcast2_def bdim_def expand_def py_max0_def deque_append_def)

lemma one_step:
  "p_sample_plms (\<lambda>inp t r. case t of TTensor [k] \<Rightarrow> [[of_int k, 0]] | _ \<Rightarrow> [[0, 0]])
                     (register_buffers [1 / 10, 1 / 10, 1 / 10, 1 / 10, 1 / 10, 1 / 10] 2 6 (- 12) 2)
                     [[1 / 2, 1 / 4]] [5] 0 [[]] () \<lparr>noise_list = [], calls = []\<rparr> =
   (Inr [[1 / 2, 1 / 4]],
    \<lparr>noise_list = [[[5, 0]]],
     calls = [([[1 / 2, 1 / 4]], TTensor [5]), ([[1 / 2, 1 / 4]], TTensor [5])]\<rparr>)"
  by (simp add: p_sample_plms_def act_defs step_eval_aux cat_features_def tensor_op_def tadd_def
      tsub_def tmap_def bcast2_def bdim_def expand_def py_max0_def deque_append_def)

lemma pndm_run:
  "forward_infer (\<lambda>inp t r. inp) (\<lambda>name bs x steps cond r bar. ret x)
       (register_buffers [1 / 10000] 2 1 (- 12) 2) (\<lambda>b j. 1 / 2) (\<lambda>i b j. 0) [[]] 1 ()
       None 2 (Some ''pndm'') None True \<lparr>noise_list = nl, calls = []\<rparr> =
     (Inr [[- 3 / 2, - 3 / 2]],
      \<lparr>noise_list = [[[1 / 2, 1 / 2]]],
       calls = [([[1 / 2, 1 / 2]], TTensor [0]), ([[1 / 2, 1 / 2]], TScalar 0)]\<rparr>)"
  by (simp add: forward_infer_def Let_def py_range0_def p_sample_plms_def act_defs get_x_pred_def
      tensor_defs py_max0_def deque_append_def np_cumprod_def denorm_spec_def upt_rec)

theorem plms_noise_history_witness:
  "noise_list (snd (p_sample_plms
       (\<lambda>inp t r. case t of TTensor [k] \<Rightarrow> [[of_int k, 0]] | _ \<Rightarrow> [[0, 0]])
       (register_buffers [1 / 10, 1 / 10, 1 / 10, 1 / 10, 1 / 10, 1 / 10] 2 6 (- 12) 2)
       [[1 / 2, 1 / 4]] [5] 0 [[]] () \<lparr>noise_list = [], calls = []\<rparr>)) = [[[5, 0]]] \<and>
   deque_append 4 [[[5, 0]], [[4, 0]], [[3, 0]], [[2, 0]]] [[1, 0 :: real]] =
     [[[4, 0]], [[3, 0]], [[2, 0]], [[1, 0]]] \<and>
   noise_list (snd (for_each
       (\<lambda>x i. p_sample_plms (\<lambda>inp t r. case t of TTensor [k] \<Rightarrow> [[of_int k, 0]] | _ \<Rightarrow> [[0, 0]])
                 (register_buffers [1 / 10, 1 / 10, 1 / 10, 1 / 10, 1 / 10, 1 / 10] 2 6 (- 12) 2)
                 x (replicate 1 i) 0 [[]] ())
       [[1 / 2, 1 / 4]] [5, 4, 3, 2, 1, 0] \<lparr>noise_list = [], calls = []\<rparr>)) =
     [[[3, 0]], [[2, 0]], [[1, 0]], [[0, 0]]] \<and>
   length (noise_list (snd (for_each
       (\<lambda>x i. p_sample_plms (\<lambda>inp t r. case t of TTensor [k] \<Rightarrow> [[of_int k, 0]] | _ \<Rightarrow> [[0, 0]])
                 (register_buffers [1 / 10, 1 / 10, 1 / 10, 1 / 10, 1 / 10, 1 / 10] 2 6 (- 12) 2)
                 x (replicate 1 i) 0 [[]] ())
       [[1 / 2, 1 / 4]] [5, 4, 3, 2, 1, 0] \<lparr>noise_list = [], calls = []\<rparr>))) \<le> 4 \<and>
   forward_infer (\<lambda>inp t r. inp) (\<lambda>name bs x steps cond r bar. ret x)
       (register_buffers [1 / 10000] 2 1 (- 12) 2) (\<lambda>b j. 1 / 2) (\<lambda>i b j. 0) [[]] 1 ()
       None 2 (Some ''pndm'') None True
       \<lparr>noise_list = [[[9, 9]], [[8, 8]], [[7, 7]], [[6, 6]]], calls = []\<rparr> =
     (Inr [[- 3 / 2, - 3 / 2]],
      \<lparr>noise_list = [[[1 / 2, 1 / 2]]],
       calls = [([[1 / 2, 1 / 2]], TTensor [0]), ([[1 / 2, 1 / 2]], TScalar 0)]\<rparr>)"
proof -
  let ?den = "\<lambda>(inp :: tensor) t (r :: unit). case t of TTensor [k] \<Rightarrow> [[of_int k, 0 :: real]] | _ \<Rightarrow> [[0, 0]]"
  let ?self = "register_buffers [1 / 10, 1 / 10, 1 / 10, 1 / 10, 1 / 10, 1 / 10] 2 6 (- 12) 2"
  let ?s0 = "\<lparr>noise_list = [], calls = []\<rparr>"
  note A = plms_noise_history [where den = ?den and self = ?self and x = "[[1 / 2, 1 / 4]]"
      and t = "[5]" and interval = 0 and cond = "[[]]" and ref = "()" and s = ?s0
      and xs = "[[[5, 0]], [[4, 0]], [[3, 0]], [[2, 0]]]" and v = "[[1, 0]]" and b = 1
      and ts = "[5, 4, 3, 2, 1, 0]"]
  have a: "noise_list \<lparr>noise_list = [[[5, 0]]],
               calls = [([[1 / 2, 1 / 4]], TTensor [5]), ([[1 / 2, 1 / 4]], TTensor [5])]\<rparr> =
             [[[5, 0]]]"
    using A [THEN conjunct1, rule_format, OF one_step]
    by (simp add: cat_features_def deque_append_def)
  have b: "deque_append 4 [[[5, 0]], [[4, 0]], [[3, 0]], [[2, 0]]] [[1, 0 :: real]] =
             [[[4, 0]], [[3, 0]], [[2, 0]], [[1, 0]]]"
    using A [THEN conjunct2, THEN conjunct1] by simp
  have c: "length (noise_list \<lparr>noise_list = [[[3, 0]], [[2, 0]], [[1, 0]], [[0, 0 :: real]]],
     calls = [([[1 / 2, 1 / 4 :: real]], TTensor [5]), ([[1 / 2, 1 / 4]], TTensor [5]),
              ([[1 / 2, 1 / 4]], TTensor [4]), ([[1 / 2, 1 / 4]], TTensor [3]),
              ([[1 / 2, 1 / 4]], TTensor [2]), ([[1 / 2, 1 / 4]], TTensor [1]),
              ([[1 / 2, 1 / 4]], TTensor [0])]\<rparr>) \<le> 4"
    by (rule A [THEN conjunct2, THEN conjunct2, THEN conjunct1, rule_format, OF conjI,
          OF _ six_steps]) simp
  let ?stale = "\<lparr>noise_list = [[[9, 9]], [[8, 8]], [[7, 7]], [[6, 6 :: real]]],
                  calls = ([] :: (tensor \<times> tstep) list)\<rparr>"
  note B = plms_noise_history [where s = ?s0 and infer_speedup = 2 and den = "\<lambda>inp t r. inp"
      and solver = "\<lambda>name bs x steps cond r bar. ret x"
      and self = "register_buffers [1 / 10000] 2 1 (- 12) 2" and ?g0.0 = "\<lambda>b j. 1 / 2"
      and gs = "\<lambda>i b j. 0" and cond = "[[]]" and frames = 1 and ref = "()" and gt_spec = None
      and k_step_arg = None and use_tqdm = True]
  have d: "forward_infer (\<lambda>inp t r. inp) (\<lambda>name bs x steps cond r bar. ret x)
       (register_buffers [1 / 10000] 2 1 (- 12) 2) (\<lambda>b j. 1 / 2) (\<lambda>i b j. 0) [[]] 1 ()
       None 2 (Some ''pndm'') None True (?s0\<lparr>noise_list := noise_list ?stale\<rparr>) =
     (Inr [[- 3 / 2, - 3 / 2]],
      \<lparr>noise_list = [[[1 / 2, 1 / 2]]],
       calls = [([[1 / 2, 1 / 2]], TTensor [0]), ([[1 / 2, 1 / 2]], TScalar 0)]\<rparr>)"
    by (rule B [THEN conjunct2, THEN conjunct2, THEN conjunct2, THEN conjunct2, rule_format])
       (use pndm_run [of "[]"] in simp)
  from a b c d show ?thesis
    unfolding six_steps one_step by simp
qed

subsection \<open>Forward process and samplers\<close>

lemma extract_at_map:
  "list_all (\<lambda>i. 0 \<le> i \<and> i < int (length ac)) t \<Longrightarrow>
   extract_at (map h ac) t = Inr (map (\<lambda>i. h (ac ! nat i)) t)"
  by (auto simp: extract_at_def list_all_iff)

lemma extract_at_plain:
  "list_all (\<lambda>i. 0 \<le> i \<and> i < int (length ac)) t \<Longrightarrow>
   extract_at ac t = Inr (map (\<lambda>i. ac ! nat i) t)"
  by (simp add: extract_at_def)

lemma coef_mul_bc:
  "length t = length x \<or> length t = 1 \<Longrightarrow>
   coef_mul (map f t) x = Inr (map2 (\<lambda>i. map (\<lambda>v. f i * v)) (expand (length x) t) x)"
  by (simp add: coef_mul_def bcast2_left expand_map zip_map1 case_prod_beta)

lemma div_coef_bc:
  "length t = length x \<or> length t = 1 \<Longrightarrow>
   div_coef x (map f t) = Inr (map2 (\<lambda>i. map (\<lambda>v. v / f i)) (expand (length x) t) x)"
  by (simp add: div_coef_def bcast2_right expand_map zip_map2 case_prod_beta zip_commute [of x]
      o_def)

lemma bcast2_maps: "bcast2 h (map f t) (map g t) = Inr (map (\<lambda>i. h (f i) (g i)) t)"
  by (simp add: bcast2_same zip_map1 zip_map2 zip_same_conv_map o_def)

lemma shape_coef:
  "length t' = length x \<Longrightarrow> map length (map2 (\<lambda>i. map (F i)) t' x) = map length x"
  by (intro nth_equalityI) auto

lemma shape_op:
  "map length a = map length b \<Longrightarrow> map length (map2 (map2 f) a b) = map length a"
proof -
  assume a: "map length a = map length b"
  then have l: "length a = length b" by (rule map_eq_imp_length_eq)
  have "length (a ! i) = length (b ! i)" if "i < length a" for i
    using a that l by (metis nth_map)
  then show ?thesis
    using l by (intro nth_equalityI) auto
qed

lemma sqrt_inverse_pointwise:
  fixes a X N :: real
  assumes "0 < a" "a \<le> 1"
  shows "sqrt (1 / a) * (sqrt a * X + sqrt (1 - a) * N) - sqrt (1 / a - 1) * N = X"
proof -
  have 1: "sqrt (1 / a) * sqrt a = 1"
    using assms by (simp add: real_sqrt_divide)
  have "1 / a - 1 = (1 - a) / a"
    using assms by (simp add: field_simps)
  then have 2: "sqrt (1 / a - 1) = sqrt (1 / a) * sqrt (1 - a)"
    by (simp add: real_sqrt_mult real_sqrt_divide)
  have "sqrt (1 / a) * (sqrt a * X + sqrt (1 - a) * N) =
        (sqrt (1 / a) * sqrt a) * X + (sqrt (1 / a) * sqrt (1 - a)) * N"
    by (simp add: algebra_simps)
  then show ?thesis
    using 1 2 by simp
qed

text \<open>
  Claim C1. For an engine built by the constructor, timesteps \<open>t\<close> inside the table with
  \<open>0 < alphas_cumprod[t] \<le> 1\<close>, and \<open>x_start\<close> and \<open>noise\<close> of one shape (\<open>t\<close> holding one
  timestep per batch entry, or a single timestep for the whole batch), \<open>q_sample\<close>
  returns some \<open>x_t\<close> and \<open>predict_start_from_noise\<close> of \<open>x_t\<close>, \<open>t\<close> and the same noise
  returns exactly \<open>x_start\<close>.
\<close>

theorem q_sample_predict_inverse:
  assumes init: "GaussianDiffusion_init od T ks max_beta smin smax = Inr self"
    and t: "list_all (\<lambda>i. 0 \<le> i \<and> i < num_timesteps self \<and>
                          0 < alphas_cumprod self ! nat i \<and> alphas_cumprod self ! nat i \<le> 1) t"
    and shape: "map length noise = map length x_start"
    and batch: "length t = length x_start \<or> length t = 1"
  shows "\<exists>x_t. q_sample self g x_start t (Some noise) = Inr x_t \<and>
               predict_start_from_noise self x_t t noise = Inr x_start"
proof -
  from init obtain bs where self: "self = register_buffers bs od ks smin smax"
    by (rule init_InrD)
  define ac where "ac = np_cumprod (map (\<lambda>b. 1 - b) bs)"
  define t' where "t' = expand (length x_start) t"
  define A where "A = map2 (\<lambda>i. map (\<lambda>v. sqrt (ac ! nat i) * v)) t' x_start"
  define B where "B = map2 (\<lambda>i. map (\<lambda>v. sqrt (1 - ac ! nat i) * v)) t' noise"
  define x_t where "x_t = map2 (map2 (\<lambda>a b. a + b)) A B"
  define C where "C = map2 (\<lambda>i. map (\<lambda>v. sqrt (1 / ac ! nat i) * v)) t' x_t"
  define D where "D = map2 (\<lambda>i. map (\<lambda>v. sqrt (1 / ac ! nat i - 1) * v)) t' noise"
  have rng: "list_all (\<lambda>i. 0 \<le> i \<and> i < int (length ac)) t"
    using t by (auto simp: self ac_def list_all_iff)
  have good: "0 < ac ! nat i \<and> ac ! nat i \<le> 1" if "i \<in> set t'" for i
    using t that set_expand [of "length x_start" t]
    by (auto simp: self ac_def [symmetric] t'_def list_all_iff)
  have ln: "length noise = length x_start"
    using shape by (rule map_eq_imp_length_eq)
  have lt': "length t' = length x_start"
    using batch by (simp add: t'_def length_expand)
  have lt'n: "length t' = length noise"
    using lt' ln by simp
  have inner: "length (noise ! b) = length (x_start ! b)" if "b < length x_start" for b
    using shape that ln by (metis nth_map)
  have batch_n: "length t = length noise \<or> length t = 1"
    using batch ln by simp
  have shA: "map length A = map length x_start"
    unfolding A_def using lt' by (rule shape_coef)
  have shB: "map length B = map length noise"
    unfolding B_def using lt'n by (rule shape_coef)
  have shAB: "map length A = map length B"
    using shA shB shape by simp
  have sh_xt: "map length x_t = map length x_start"
    unfolding x_t_def using shape_op [OF shAB] shA by simp
  then have lxt: "length x_t = length x_start"
    by (rule map_eq_imp_length_eq)
  have batch_xt: "length t = length x_t \<or> length t = 1"
    using batch lxt by simp
  have shC: "map length C = map length x_t"
    unfolding C_def using lt' lxt by (intro shape_coef) simp
  have shD: "map length D = map length noise"
    unfolding D_def using lt'n by (rule shape_coef)
  have shCD: "map length C = map length D"
    using shC shD sh_xt shape by simp
  have e1: "extract_at (sqrt_alphas_cumprod self) t = Inr (map (\<lambda>i. sqrt (ac ! nat i)) t)"
    and e2: "extract_at (sqrt_one_minus_alphas_cumprod self) t =
               Inr (map (\<lambda>i. sqrt (1 - ac ! nat i)) t)"
    and e3: "extract_at (sqrt_recip_alphas_cumprod self) t =
               Inr (map (\<lambda>i. sqrt (1 / ac ! nat i)) t)"
    and e4: "extract_at (sqrt_recipm1_alphas_cumprod self) t =
               Inr (map (\<lambda>i. sqrt (1 / ac ! nat i - 1)) t)"
    using extract_at_map [OF rng] by (simp_all add: self ac_def [symmetric])
  have cA: "coef_mul (map (\<lambda>i. sqrt (ac ! nat i)) t) x_start = Inr A"
    unfolding A_def t'_def using batch by (rule coef_mul_bc)
  have cB: "coef_mul (map (\<lambda>i. sqrt (1 - ac ! nat i)) t) noise = Inr B"
    unfolding B_def t'_def ln [symmetric] using batch_n by (rule coef_mul_bc)
  have cC: "coef_mul (map (\<lambda>i. sqrt (1 / ac ! nat i)) t) x_t = Inr C"
    unfolding C_def t'_def lxt [symmetric] using batch_xt by (rule coef_mul_bc)
  have cD: "coef_mul (map (\<lambda>i. sqrt (1 / ac ! nat i - 1)) t) noise = Inr D"
    unfolding D_def t'_def ln [symmetric] using batch_n by (rule coef_mul_bc)
  have add: "tadd A B = Inr x_t"
    unfolding tadd_def x_t_def using shAB by (rule tensor_op_same)
  have sub: "tsub C D = Inr (map2 (map2 (\<lambda>a b. a - b)) C D)"
    unfolding tsub_def using shCD by (rule tensor_op_same)
  have q: "q_sample self g x_start t (Some noise) = Inr x_t"
    by (simp add: q_sample_def default_def e1 e2 cA cB add)
  have p: "predict_start_from_noise self x_t t noise = Inr (map2 (map2 (\<lambda>a b. a - b)) C D)"
    by (simp add: predict_start_from_noise_def e3 e4 cC cD sub)
  have lC: "length C = length x_start" and lD: "length D = length x_start"
    using lt' lxt ln by (simp_all add: C_def D_def)
  have "map2 (map2 (\<lambda>a b. a - b)) C D = x_start"
  proof (rule nth_equalityI)
    show "length (map2 (map2 (\<lambda>a b. a - b)) C D) = length x_start"
      using lC lD by simp
  next
    fix b
    assume "b < length (map2 (map2 (\<lambda>a b. a - b)) C D)"
    then have b: "b < length x_start"
      using lC lD by simp
    then have g: "0 < ac ! nat (t' ! b)" "ac ! nat (t' ! b) \<le> 1"
      using good [of "t' ! b"] lt' by simp_all
    have xtb: "x_t ! b = map2 (\<lambda>a b. a + b)
                 (map (\<lambda>v. sqrt (ac ! nat (t' ! b)) * v) (x_start ! b))
                 (map (\<lambda>v. sqrt (1 - ac ! nat (t' ! b)) * v) (noise ! b))"
      using b lt' ln by (simp add: x_t_def A_def B_def)
    have Cb: "C ! b = map (\<lambda>v. sqrt (1 / ac ! nat (t' ! b)) * v) (x_t ! b)"
      using b lt' lxt by (simp add: C_def)
    have Db: "D ! b = map (\<lambda>v. sqrt (1 / ac ! nat (t' ! b) - 1) * v) (noise ! b)"
      using b lt' ln by (simp add: D_def)
    have "map2 (\<lambda>a b. a - b) (C ! b) (D ! b) = x_start ! b"
      unfolding Cb Db xtb using inner [OF b] g
      by (intro nth_equalityI) (simp_all add: sqrt_inverse_pointwise)
    then show "map2 (map2 (\<lambda>a b. a - b)) C D ! b = x_start ! b"
      using b lC lD by simp
  qed
  with p q show ?thesis by simp
qed

lemma init_three_steps:
  "GaussianDiffusion_init 2 3 3 (2 / 100) (- 12) 2 =
     Inr (register_buffers [1 / 10000, 201 / 20000, 2 / 100] 2 3 (- 12) 2)"
  by (simp add: GaussianDiffusion_init_def GaussianDiffusion_init_with_def dict_get_def
      beta_schedule_def linear_beta_schedule_def np_linspace_def upt_rec)

theorem q_sample_predict_inverse_witness:
  "GaussianDiffusion_init 2 3 3 (2 / 100) (- 12) 2 =
     Inr (register_buffers [1 / 10000, 201 / 20000, 2 / 100] 2 3 (- 12) 2) \<and>
   alphas_cumprod (register_buffers [1 / 10000, 201 / 20000, 2 / 100] 2 3 (- 12) 2) =
     [9999 / 10000, 9999 / 10000 * (19799 / 20000), 9999 / 10000 * (19799 / 20000) * (98 / 100)] \<and>
   (\<exists>x_t. q_sample (register_buffers [1 / 10000, 201 / 20000, 2 / 100] 2 3 (- 12) 2) (\<lambda>b j. 0)
            [[1 / 2, - 1], [0, 3]] [2, 0] (Some [[1, 2], [- 1, 0]]) = Inr x_t \<and>
          predict_start_from_noise (register_buffers [1 / 10000, 201 / 20000, 2 / 100] 2 3 (- 12) 2)
            x_t [2, 0] [[1, 2], [- 1, 0]] = Inr [[1 / 2, - 1], [0, 3]])"
proof -
  let ?self = "register_buffers [1 / 10000, 201 / 20000, 2 / 100] 2 3 (- 12) 2"
  have ac: "alphas_cumprod ?self =
     [9999 / 10000, 9999 / 10000 * (19799 / 20000), 9999 / 10000 * (19799 / 20000) * (98 / 100)]"
    by (simp add: np_cumprod_def)
  have t: "list_all (\<lambda>i. 0 \<le> i \<and> i < num_timesteps ?self \<and>
                          0 < alphas_cumprod ?self ! nat i \<and> alphas_cumprod ?self ! nat i \<le> 1) [2, 0]"
    unfolding ac by simp
  have "\<exists>x_t. q_sample ?self (\<lambda>b j. 0) [[1 / 2, - 1], [0, 3]] [2, 0] (Some [[1, 2], [- 1, 0]]) = Inr x_t \<and>
          predict_start_from_noise ?self x_t [2, 0] [[1, 2], [- 1, 0]] = Inr [[1 / 2, - 1], [0, 3]]"
    by (rule q_sample_predict_inverse [OF init_three_steps t]) simp_all
  with init_three_steps ac show ?thesis by blast
qed

lemma ddim_pointwise:
  fixes a p X N :: real
  assumes a: "0 < a" "a < 1" and p: "0 < p" "p < 1"
  shows "X + (p - a) * (1 / (sqrt a * (sqrt a + sqrt p)) * X -
                        1 / (sqrt a * (sqrt ((1 - p) * a) + sqrt ((1 - a) * p))) * N) =
         sqrt p * (X / sqrt a + (sqrt ((1 - p) / p) - sqrt ((1 - a) / a)) * N)"
proof -
  define sa sp u w where "sa = sqrt a" and "sp = sqrt p" and "u = sqrt (1 - p)" and "w = sqrt (1 - a)"
  have pos: "0 < sa" "0 < sp" "0 < u" "0 < w"
    using a p by (simp_all add: sa_def sp_def u_def w_def)
  have sq: "a = sa * sa" "p = sp * sp" "u * u = 1 - sp * sp" "w * w = 1 - sa * sa"
    using a p by (simp_all add: sa_def sp_def u_def w_def)
  have r1: "sqrt ((1 - p) * a) = u * sa" "sqrt ((1 - a) * p) = w * sp"
    by (simp_all add: real_sqrt_mult sa_def sp_def u_def w_def)
  have r2: "sqrt ((1 - p) / p) = u / sp" "sqrt ((1 - a) / a) = w / sa"
    by (simp_all add: real_sqrt_divide sa_def sp_def u_def w_def)
  have dpos: "0 < u * sa + w * sp" "0 < sa + sp"
    using pos by (simp_all add: add_pos_pos)
  have k: "(u * sa + w * sp) * (u * sa - w * sp) = sa * sa - sp * sp"
  proof -
    have "(u * sa + w * sp) * (u * sa - w * sp) = (u * u) * (sa * sa) - (w * w) * (sp * sp)"
      by (simp add: algebra_simps)
    also have "\<dots> = sa * sa - sp * sp"
      unfolding sq(3,4) by (simp add: algebra_simps)
    finally show ?thesis .
  qed
  have c1: "(sp * sp - sa * sa) * (1 / (sa * (sa + sp))) = (sp - sa) / sa"
  proof -
    have "(sp * sp - sa * sa) = (sp - sa) * (sa + sp)"
      by (simp add: algebra_simps)
    then have "(sp * sp - sa * sa) * (1 / (sa * (sa + sp))) =
               (sp - sa) * ((sa + sp) / (sa * (sa + sp)))"
      by simp
    also have "(sa + sp) / (sa * (sa + sp)) = 1 / sa"
      using dpos pos by simp
    finally show ?thesis by simp
  qed
  have c2: "(sp * sp - sa * sa) * (1 / (sa * (u * sa + w * sp))) = (w * sp - u * sa) / sa"
  proof -
    have "(sp * sp - sa * sa) = (w * sp - u * sa) * (u * sa + w * sp)"
      using k by (simp add: algebra_simps)
    then have "(sp * sp - sa * sa) * (1 / (sa * (u * sa + w * sp))) =
               (w * sp - u * sa) * ((u * sa + w * sp) / (sa * (u * sa + w * sp)))"
      by simp
    also have "(u * sa + w * sp) / (sa * (u * sa + w * sp)) = 1 / sa"
      using dpos pos by simp
    finally show ?thesis by simp
  qed
  have "X + (sp * sp - sa * sa) * (1 / (sa * (sa + sp)) * X - 1 / (sa * (u * sa + w * sp)) * N) =
        X + ((sp * sp - sa * sa) * (1 / (sa * (sa + sp)))) * X -
            ((sp * sp - sa * sa) * (1 / (sa * (u * sa + w * sp)))) * N"
    by (simp add: algebra_simps)
  also have "\<dots> = X + (sp - sa) / sa * X - (w * sp - u * sa) / sa * N"
    unfolding c1 c2 ..
  also have "\<dots> = sp * (X / sa + (u / sp - w / sa) * N)"
    using pos by (simp add: field_simps)
  finally show ?thesis
    unfolding r1 r2 sa_def [symmetric] sp_def [symmetric] sq(1,2) [symmetric]
    by (metis sq(1) sq(2))
qed

text \<open>
  Claim C2. For timesteps \<open>t\<close> with \<open>alphas_cumprod[t]\<close> and
  \<open>alphas_cumprod[max(t - interval, 0)]\<close> strictly between 0 and 1, and \<open>x\<close> and the noise
  prediction of one shape, the PLMS helper \<open>get_x_pred\<close> and the DDIM update rule of
  line 118 return the same tensor; so does \<open>p_sample_ddim\<close> when the denoiser predicts
  that noise.
\<close>

theorem get_x_pred_is_ddim:
  assumes init: "GaussianDiffusion_init od T ks max_beta smin smax = Inr self"
    and t: "list_all (\<lambda>i. 0 \<le> i \<and> i < num_timesteps self \<and>
                          max (i - interval) 0 < num_timesteps self \<and>
                          0 < alphas_cumprod self ! nat i \<and> alphas_cumprod self ! nat i < 1 \<and>
                          0 < alphas_cumprod self ! nat (max (i - interval) 0) \<and>
                          alphas_cumprod self ! nat (max (i - interval) 0) < 1) t"
    and shape: "map length noise_t = map length x"
    and batch: "length t = length x \<or> length t = 1"
  shows "\<exists>y. get_x_pred self interval x noise_t t = Inr y \<and>
             and_then (extract_at (alphas_cumprod self) t) (\<lambda>a_t.
             and_then (extract_at (alphas_cumprod self) (map (\<lambda>i. max (i - interval) 0) t)) (\<lambda>a_prev.
               ddim_x_prev a_t a_prev x noise_t)) = Inr y \<and>
             (\<forall>inp. cat_features x cond = Inr inp \<and> noise_t = den inp (TTensor t) ref \<longrightarrow>
                p_sample_ddim den self x t interval cond ref s =
                  (Inr y, s\<lparr>calls := calls s @ [(inp, TTensor t)]\<rparr>))"
proof -
  from init obtain bs where self: "self = register_buffers bs od ks smin smax"
    by (rule init_InrD)
  define ac where "ac = np_cumprod (map (\<lambda>b. 1 - b) bs)"
  define a_cur where "a_cur = (\<lambda>i. ac ! nat i)"
  define a_prv where "a_prv = (\<lambda>i. ac ! nat (max (i - interval) 0))"
  define t' where "t' = expand (length x) t"
  have acs: "alphas_cumprod self = ac"
    by (simp add: self ac_def)
  have rng: "list_all (\<lambda>i. 0 \<le> i \<and> i < int (length ac)) t"
    using t by (auto simp: self ac_def list_all_iff)
  have rngp: "list_all (\<lambda>i. 0 \<le> i \<and> i < int (length ac)) (map (\<lambda>i. max (i - interval) 0) t)"
    using t by (auto simp: self ac_def list_all_iff)
  have good: "0 < a_cur i \<and> a_cur i < 1 \<and> 0 < a_prv i \<and> a_prv i < 1" if "i \<in> set t'" for i
    using t that set_expand [of "length x" t]
    by (auto simp: acs a_cur_def a_prv_def t'_def list_all_iff)
  have ln: "length noise_t = length x"
    using shape by (rule map_eq_imp_length_eq)
  have lt': "length t' = length x"
    using batch by (simp add: t'_def length_expand)
  have lt'n: "length t' = length noise_t"
    using lt' ln by simp
  have inner: "length (noise_t ! b) = length (x ! b)" if "b < length x" for b
    using shape that ln by (metis nth_map)
  have batch_n: "length t = length noise_t \<or> length t = 1"
    using batch ln by simp
  have e_t: "extract_at (alphas_cumprod self) t = Inr (map a_cur t)"
    unfolding acs a_cur_def using rng by (rule extract_at_plain)
  have e_p: "extract_at (alphas_cumprod self) (map (\<lambda>i. max (i - interval) 0) t) = Inr (map a_prv t)"
    unfolding acs a_prv_def using extract_at_plain [OF rngp] by (simp add: o_def)

  \<comment> \<open>the PLMS helper\<close>
  define U where "U = map2 (\<lambda>i. map (\<lambda>v. 1 / (sqrt (a_cur i) * (sqrt (a_cur i) + sqrt (a_prv i))) * v)) t' x"
  define V where "V = map2 (\<lambda>i. map (\<lambda>v. 1 / (sqrt (a_cur i) *
                         (sqrt ((1 - a_prv i) * a_cur i) + sqrt ((1 - a_cur i) * a_prv i))) * v)) t' noise_t"
  define W where "W = map2 (map2 (\<lambda>a b. a - b)) U V"
  define XD where "XD = map2 (\<lambda>i. map (\<lambda>v. (a_prv i - a_cur i) * v)) t' W"
  define Y where "Y = map2 (map2 (\<lambda>a b. a + b)) x XD"
  have shU: "map length U = map length x"
    unfolding U_def using lt' by (rule shape_coef)
  have shV: "map length V = map length noise_t"
    unfolding V_def using lt'n by (rule shape_coef)
  have shUV: "map length U = map length V"
    using shU shV shape by simp
  have shW: "map length W = map length x"
    unfolding W_def using shape_op [OF shUV] shU by simp
  then have lW: "length W = length x"
    by (rule map_eq_imp_length_eq)
  have shXD: "map length XD = map length W"
    unfolding XD_def using lt' lW by (intro shape_coef) simp
  have shxXD: "map length x = map length XD"
    using shXD shW by simp
  have bd: "bcast2 (\<lambda>a_prv ac. a_prv - ac) (map a_prv t) (map a_cur t) = Inr (map (\<lambda>i. a_prv i - a_cur i) t)"
    by (rule bcast2_maps)
  have bc1: "bcast2 (\<lambda>ts ps. 1 / (ts * (ts + ps))) (map (\<lambda>i. sqrt (a_cur i)) t) (map (\<lambda>i. sqrt (a_prv i)) t) =
               Inr (map (\<lambda>i. 1 / (sqrt (a_cur i) * (sqrt (a_cur i) + sqrt (a_prv i)))) t)"
    by (rule bcast2_maps)
  have br: "bcast2 (\<lambda>a_prv ac. sqrt ((1 - a_prv) * ac) + sqrt ((1 - ac) * a_prv)) (map a_prv t) (map a_cur t) =
               Inr (map (\<lambda>i. sqrt ((1 - a_prv i) * a_cur i) + sqrt ((1 - a_cur i) * a_prv i)) t)"
    by (rule bcast2_maps)
  have bc2: "bcast2 (\<lambda>ts rr. 1 / (ts * rr)) (map (\<lambda>i. sqrt (a_cur i)) t)
               (map (\<lambda>i. sqrt ((1 - a_prv i) * a_cur i) + sqrt ((1 - a_cur i) * a_prv i)) t) =
               Inr (map (\<lambda>i. 1 / (sqrt (a_cur i) *
                      (sqrt ((1 - a_prv i) * a_cur i) + sqrt ((1 - a_cur i) * a_prv i)))) t)"
    by (rule bcast2_maps)
  have cU: "coef_mul (map (\<lambda>i. 1 / (sqrt (a_cur i) * (sqrt (a_cur i) + sqrt (a_prv i)))) t) x = Inr U"
    unfolding U_def t'_def using batch by (rule coef_mul_bc)
  have cV: "coef_mul (map (\<lambda>i. 1 / (sqrt (a_cur i) *
                      (sqrt ((1 - a_prv i) * a_cur i) + sqrt ((1 - a_cur i) * a_prv i)))) t) noise_t = Inr V"
    unfolding V_def t'_def ln [symmetric] using batch_n by (rule coef_mul_bc)
  have sW: "tsub U V = Inr W"
    unfolding tsub_def W_def using shUV by (rule tensor_op_same)
  have cXD: "coef_mul (map (\<lambda>i. a_prv i - a_cur i) t) W = Inr XD"
    unfolding XD_def t'_def lW [symmetric] using batch lW by (intro coef_mul_bc) simp
  have aY: "tadd x XD = Inr Y"
    unfolding tadd_def Y_def using shxXD by (rule tensor_op_same)
  have plms: "get_x_pred self interval x noise_t t = Inr Y"
    unfolding get_x_pred_def e_t e_p and_then_simps Let_def map_map o_def
      bd bc1 br bc2 cU cV sW cXD aY ..

  \<comment> \<open>the DDIM update\<close>
  define U' where "U' = map2 (\<lambda>i. map (\<lambda>v. v / sqrt (a_cur i))) t' x"
  define V' where "V' = map2 (\<lambda>i. map (\<lambda>v. (sqrt ((1 - a_prv i) / a_prv i) - sqrt ((1 - a_cur i) / a_cur i)) * v))
                          t' noise_t"
  define W' where "W' = map2 (map2 (\<lambda>a b. a + b)) U' V'"
  define Y' where "Y' = map2 (\<lambda>i. map (\<lambda>v. sqrt (a_prv i) * v)) t' W'"
  have shU': "map length U' = map length x"
    unfolding U'_def using lt' by (rule shape_coef)
  have shV': "map length V' = map length noise_t"
    unfolding V'_def using lt'n by (rule shape_coef)
  have shUV': "map length U' = map length V'"
    using shU' shV' shape by simp
  have shW': "map length W' = map length x"
    unfolding W'_def using shape_op [OF shUV'] shU' by simp
  then have lW': "length W' = length x"
    by (rule map_eq_imp_length_eq)
  have dU': "div_coef x (map (\<lambda>i. sqrt (a_cur i)) t) = Inr U'"
    unfolding U'_def t'_def using batch by (rule div_coef_bc)
  have bcn: "bcast2 (\<lambda>a_prv ac. sqrt ((1 - a_prv) / a_prv) - sqrt ((1 - ac) / ac)) (map a_prv t) (map a_cur t) =
               Inr (map (\<lambda>i. sqrt ((1 - a_prv i) / a_prv i) - sqrt ((1 - a_cur i) / a_cur i)) t)"
    by (rule bcast2_maps)
  have cV': "coef_mul (map (\<lambda>i. sqrt ((1 - a_prv i) / a_prv i) - sqrt ((1 - a_cur i) / a_cur i)) t) noise_t = Inr V'"
    unfolding V'_def t'_def ln [symmetric] using batch_n by (rule coef_mul_bc)
  have aW': "tadd U' V' = Inr W'"
    unfolding tadd_def W'_def using shUV' by (rule tensor_op_same)
  have cY': "coef_mul (map (\<lambda>i. sqrt (a_prv i)) t) W' = Inr Y'"
    unfolding Y'_def t'_def lW' [symmetric] using batch lW' by (intro coef_mul_bc) simp
  have ddim0: "ddim_x_prev (map a_cur t) (map a_prv t) x noise_t = Inr Y'"
    unfolding ddim_x_prev_def map_map o_def dU' bcn and_then_simps cV' aW' cY' ..
  have ddim: "and_then (extract_at (alphas_cumprod self) t) (\<lambda>a_t.
             and_then (extract_at (alphas_cumprod self) (map (\<lambda>i. max (i - interval) 0) t)) (\<lambda>a_prev.
               ddim_x_prev a_t a_prev x noise_t)) = Inr Y'"
    unfolding e_t e_p and_then_simps ddim0 ..

  \<comment> \<open>the two results agree\<close>
  have lU: "length U = length x" and lV: "length V = length x"
    and lU': "length U' = length x" and lV': "length V' = length x"
    and lXD: "length XD = length x"
    using lt' ln lW by (simp_all add: U_def V_def U'_def V'_def XD_def)
  have "Y = Y'"
  proof (rule nth_equalityI)
    show "length Y = length Y'"
      using lt' lW' lXD by (simp add: Y_def Y'_def)
  next
    fix b
    assume "b < length Y"
    then have b: "b < length x"
      using lXD by (simp add: Y_def)
    then have g: "0 < a_cur (t' ! b)" "a_cur (t' ! b) < 1" "0 < a_prv (t' ! b)" "a_prv (t' ! b) < 1"
      using good [of "t' ! b"] lt' by simp_all
    have Wb: "W ! b = map2 (\<lambda>a b. a - b)
        (map (\<lambda>v. 1 / (sqrt (a_cur (t' ! b)) * (sqrt (a_cur (t' ! b)) + sqrt (a_prv (t' ! b)))) * v) (x ! b))
        (map (\<lambda>v. 1 / (sqrt (a_cur (t' ! b)) * (sqrt ((1 - a_prv (t' ! b)) * a_cur (t' ! b)) +
                     sqrt ((1 - a_cur (t' ! b)) * a_prv (t' ! b)))) * v) (noise_t ! b))"
      using b lt' ln by (simp add: W_def U_def V_def)
    have Yb: "Y ! b = map2 (\<lambda>a b. a + b) (x ! b)
                        (map (\<lambda>v. (a_prv (t' ! b) - a_cur (t' ! b)) * v) (W ! b))"
      using b lt' lW lXD by (simp add: Y_def XD_def)
    have W'b: "W' ! b = map2 (\<lambda>a b. a + b)
        (map (\<lambda>v. v / sqrt (a_cur (t' ! b))) (x ! b))
        (map (\<lambda>v. (sqrt ((1 - a_prv (t' ! b)) / a_prv (t' ! b)) -
                    sqrt ((1 - a_cur (t' ! b)) / a_cur (t' ! b))) * v) (noise_t ! b))"
      using b lt' ln by (simp add: W'_def U'_def V'_def)
    have Y'b: "Y' ! b = map (\<lambda>v. sqrt (a_prv (t' ! b)) * v) (W' ! b)"
      using b lt' lW' by (simp add: Y'_def)
    have pt: "X + (a_prv (t' ! b) - a_cur (t' ! b)) *
            (X / (sqrt (a_cur (t' ! b)) * (sqrt (a_cur (t' ! b)) + sqrt (a_prv (t' ! b)))) -
             N / (sqrt (a_cur (t' ! b)) *
              (sqrt ((1 - a_prv (t' ! b)) * a_cur (t' ! b)) +
               sqrt ((1 - a_cur (t' ! b)) * a_prv (t' ! b))))) =
            sqrt (a_prv (t' ! b)) *
            (X / sqrt (a_cur (t' ! b)) +
             (sqrt ((1 - a_prv (t' ! b)) / a_prv (t' ! b)) -
              sqrt ((1 - a_cur (t' ! b)) / a_cur (t' ! b))) * N)" for X N
      using ddim_pointwise [OF g, of X N] by simp
    show "Y ! b = Y' ! b"
      unfolding Yb Y'b Wb W'b using inner [OF b]
      by (intro nth_equalityI) (simp_all add: pt)
  qed
  moreover have "p_sample_ddim den self x t interval cond ref s =
                  (Inr Y', s\<lparr>calls := calls s @ [(inp, TTensor t)]\<rparr>)"
    if "cat_features x cond = Inr inp \<and> noise_t = den inp (TTensor t) ref" for inp
    using that ddim0 by (simp add: p_sample_ddim_def e_t e_p)
  ultimately show ?thesis
    using plms ddim by blast
qed

theorem get_x_pred_is_ddim_witness:
  "GaussianDiffusion_init 2 3 3 (2 / 100) (- 12) 2 =
     Inr (register_buffers [1 / 10000, 201 / 20000, 2 / 100] 2 3 (- 12) 2) \<and>
   alphas_cumprod (register_buffers [1 / 10000, 201 / 20000, 2 / 100] 2 3 (- 12) 2) =
     [9999 / 10000, 9999 / 10000 * (19799 / 20000), 9999 / 10000 * (19799 / 20000) * (98 / 100)] \<and>
   (\<exists>y. get_x_pred (register_buffers [1 / 10000, 201 / 20000, 2 / 100] 2 3 (- 12) 2) 1
            [[1 / 2, - 1], [0, 3]] [[1, 2], [- 1, 0]] [2, 1] = Inr y \<and>
        and_then (extract_at (alphas_cumprod
                     (register_buffers [1 / 10000, 201 / 20000, 2 / 100] 2 3 (- 12) 2)) [2, 1]) (\<lambda>a_t.
        and_then (extract_at (alphas_cumprod
                     (register_buffers [1 / 10000, 201 / 20000, 2 / 100] 2 3 (- 12) 2))
                    (map (\<lambda>i. max (i - 1) 0) [2, 1])) (\<lambda>a_prev.
          ddim_x_prev a_t a_prev [[1 / 2, - 1], [0, 3]] [[1, 2], [- 1, 0]])) = Inr y \<and>
        p_sample_ddim (\<lambda>inp t r. [[1, 2], [- 1, 0]])
            (register_buffers [1 / 10000, 201 / 20000, 2 / 100] 2 3 (- 12) 2)
            [[1 / 2, - 1], [0, 3]] [2, 1] 1 [[], []] () \<lparr>noise_list = [], calls = []\<rparr> =
          (Inr y, \<lparr>noise_list = [],
                   calls = [([[1 / 2, - 1], [0, 3]], TTensor [2, 1])]\<rparr>))"
proof -
  let ?self = "register_buffers [1 / 10000, 201 / 20000, 2 / 100] 2 3 (- 12) 2"
  have ac: "alphas_cumprod ?self =
     [9999 / 10000, 9999 / 10000 * (19799 / 20000), 9999 / 10000 * (19799 / 20000) * (98 / 100)]"
    by (simp add: np_cumprod_def)
  have t: "list_all (\<lambda>i. 0 \<le> i \<and> i < num_timesteps ?self \<and>
                          max (i - 1) 0 < num_timesteps ?self \<and>
                          0 < alphas_cumprod ?self ! nat i \<and> alphas_cumprod ?self ! nat i < 1 \<and>
                          0 < alphas_cumprod ?self ! nat (max (i - 1) 0) \<and>
                          alphas_cumprod ?self ! nat (max (i - 1) 0) < 1) [2, 1]"
    unfolding ac by simp
  have sh: "map length [[1, 2], [- 1, 0 :: real]] = map length [[1 / 2, - 1], [0, 3 :: real]]"
    by simp
  have bt: "length [2, 1 :: int] = length [[1 / 2, - 1], [0, 3 :: real]] \<or> length [2, 1 :: int] = 1"
    by simp
  from get_x_pred_is_ddim [OF init_three_steps t sh bt,
      of "[[], []]" "\<lambda>inp t r. [[1, 2], [- 1, 0]]" "()" "\<lparr>noise_list = [], calls = []\<rparr>"]
  obtain y where y: "get_x_pred ?self 1 [[1 / 2, - 1], [0, 3]] [[1, 2], [- 1, 0]] [2, 1] = Inr y"
    "and_then (extract_at (alphas_cumprod ?self) [2, 1]) (\<lambda>a_t.
        and_then (extract_at (alphas_cumprod ?self) (map (\<lambda>i. max (i - 1) 0) [2, 1])) (\<lambda>a_prev.
          ddim_x_prev a_t a_prev [[1 / 2, - 1], [0, 3]] [[1, 2], [- 1, 0]])) = Inr y"
    "\<forall>inp. cat_features [[1 / 2, - 1], [0, 3]] [[], []] = Inr inp \<and>
           [[1, 2], [- 1, 0]] = (\<lambda>inp t r. [[1, 2], [- 1, 0 :: real]]) inp (TTensor [2, 1]) () \<longrightarrow>
       p_sample_ddim (\<lambda>inp t r. [[1, 2], [- 1, 0]]) ?self [[1 / 2, - 1], [0, 3]] [2, 1] 1 [[], []] ()
           \<lparr>noise_list = [], calls = []\<rparr> =
         (Inr y, \<lparr>noise_list = [], calls = []\<rparr>\<lparr>calls :=
             calls \<lparr>noise_list = [], calls = []\<rparr> @ [(inp, TTensor [2, 1])]\<rparr>)"
    by blast
  from y(3) have "p_sample_ddim (\<lambda>inp t r. [[1, 2], [- 1, 0]]) ?self [[1 / 2, - 1], [0, 3]] [2, 1] 1
           [[], []] () \<lparr>noise_list = [], calls = []\<rparr> =
         (Inr y, \<lparr>noise_list = [], calls = [([[1 / 2, - 1], [0, 3]], TTensor [2, 1])]\<rparr>)"
    by (simp add: cat_features_def)
  with y(1,2) init_three_steps ac show ?thesis by blast
qed

lemma shape_noise_like: "map length (noise_like g x rn) = map length x"
  by (intro nth_equalityI) (auto simp: noise_like_def randn_like_def)

lemma coef_mul_zero_indep:
  assumes z: "list_all (\<lambda>c. c = 0) cs" and sh: "map length y1 = map length y2"
  shows "coef_mul cs y1 = coef_mul cs y2"
proof -
  have l: "length y1 = length y2"
    using sh by (rule map_eq_imp_length_eq)
  have "map2 (\<lambda>ci blk. map (\<lambda>v. ci * v) blk) (expand n cs) (expand n y1) =
        map2 (\<lambda>ci blk. map (\<lambda>v. ci * v) blk) (expand n cs) (expand n y2)" for n
  proof -
    have she: "map length (expand n y1) = map length (expand n y2)"
      using sh by (simp add: expand_map [symmetric])
    then have le: "length (expand n y1) = length (expand n y2)"
      by (rule map_eq_imp_length_eq)
    have zero: "expand n cs ! i = 0" if "i < length (expand n cs)" for i
      using z set_expand [of n cs] nth_mem [OF that] by (auto simp: list_all_iff)
    have inner: "length (expand n y1 ! i) = length (expand n y2 ! i)"
      if "i < length (expand n y1)" for i
      using she that le by (metis nth_map)
    show ?thesis
      using le by (intro nth_equalityI) (auto simp: zero inner intro!: nth_equalityI)
  qed
  then show ?thesis
    by (simp add: coef_mul_def bcast2_def l split: option.splits)
qed

lemma bcast2_mask_zero:
  assumes "list_all (\<lambda>m. m = 0) msk" "bcast2 (\<lambda>m lv. m * h lv) msk lvs = Inr cs"
  shows "list_all (\<lambda>c. c = (0::real)) cs"
proof -
  from assms(2) obtain n where cs: "cs = map2 (\<lambda>m lv. m * h lv) (expand n msk) (expand n lvs)"
    by (auto simp: bcast2_def split: option.splits)
  have "m = 0" if "m \<in> set (expand n msk)" for m
    using assms(1) set_expand [of n msk] that by (auto simp: list_all_iff)
  then show ?thesis
    unfolding cs by (auto simp: list_all_iff dest: set_zip_leftD)
qed

lemma bdim_lengths:
  assumes "bdim (length a) (length b) = Some n"
  shows "length (expand n a) = n" "length (expand n b) = n" "bdim n (length b) = Some n"
  using assms by (auto simp: bdim_def expand_def split: if_splits)

lemma extract_at_length: "extract_at tbl t = Inr c \<Longrightarrow> length c = length t"
  by (auto simp: extract_at_def split: if_splits)

lemma tensor_op_absorb:
  assumes m: "tensor_op f a b = Inr m"
    and sh: "map length z = map length b"
    and zero: "list_all (list_all (\<lambda>v. v = 0)) z"
  shows "tadd m z = Inr m"
proof -
  from m obtain n where n: "bdim (length a) (length b) = Some n"
    and inner: "list_all (\<lambda>p. length (fst p) = length (snd p)) (zip (expand n a) (expand n b))"
    and md: "m = map (\<lambda>p. map2 f (fst p) (snd p)) (zip (expand n a) (expand n b))"
    by (auto simp: tensor_op_def bcast2_def and_then_def zip_Pair_map2
        split: option.splits sum.splits if_splits)
  have lz: "length z = length b"
    using sh by (rule map_eq_imp_length_eq)
  note len = bdim_lengths [OF n]
  have lm: "length m = n"
    using len by (simp add: md)
  have lez: "length (expand n z) = n"
    using len(2) lz by (auto simp: expand_def split: if_splits)
  have she: "map length (expand n z) = map length (expand n b)"
    using sh by (simp add: expand_map [symmetric])
  have mi: "length (m ! i) = length (expand n b ! i)" if "i < n" for i
    using that len inner by (simp add: md list_all_length)
  have zi: "length (expand n z ! i) = length (expand n b ! i)" if "i < n" for i
    using that she lez len(2) by (metis nth_map)
  have z0: "expand n z ! i ! j = 0" if "i < n" "j < length (expand n z ! i)" for i j
  proof -
    have "expand n z ! i \<in> set z"
      using set_expand [of n z] nth_mem [of i "expand n z"] that(1) lez by auto
    then have "list_all (\<lambda>v. v = 0) (expand n z ! i)"
      using zero by (simp add: list_all_iff)
    then show ?thesis
      using that(2) by (simp add: list_all_length)
  qed
  have ok: "list_all (\<lambda>p. length (fst p) = length (snd p)) (zip m (expand n z))"
    using lm lez mi zi by (simp add: list_all_length)
  have res: "map (\<lambda>p. map2 (\<lambda>a b. a + b) (fst p) (snd p)) (zip m (expand n z)) = m"
  proof (rule nth_equalityI)
    show "length (map (\<lambda>p. map2 (\<lambda>a b. a + b) (fst p) (snd p)) (zip m (expand n z))) = length m"
      using lm lez by simp
  next
    fix i
    assume "i < length (map (\<lambda>p. map2 (\<lambda>a b. a + b) (fst p) (snd p)) (zip m (expand n z)))"
    then have i: "i < n"
      using lm lez by simp
    have "map2 (\<lambda>a b. a + b) (m ! i) (expand n z ! i) = m ! i"
      using mi [OF i] zi [OF i] z0 [OF i] by (intro nth_equalityI) simp_all
    then show "map (\<lambda>p. map2 (\<lambda>a b. a + b) (fst p) (snd p)) (zip m (expand n z)) ! i = m ! i"
      using i lm lez by simp
  qed
  have "bdim (length m) (length z) = Some n"
    using len(3) lm lz by simp
  then show ?thesis
    using lm ok res by (simp add: tadd_def tensor_op_def bcast2_def zip_Pair_map2)
qed

lemma q_posterior_InrD:
  assumes "q_posterior self xs x t = Inr (m, v, lv)"
  obtains a b c2 where "length c2 = length t" "coef_mul c2 x = Inr b" "tadd a b = Inr m"
    "length lv = length t"
  using assms unfolding q_posterior_def and_then_def
  by (auto split: sum.splits dest: extract_at_length)

lemma p_mean_variance_InrD:
  assumes "p_mean_variance den self x t cond ref s = (Inr (m, v, lv), s')"
  obtains xs where "q_posterior self xs x t = Inr (m, v, lv)"
  using assms unfolding p_mean_variance_def
  by (auto simp: act_defs split: sum.splits prod.splits)

lemma p_sample_unfold:
  "p_sample den self g x t cond ref repeat_noise s =
      (case p_mean_variance den self x t cond ref s of
         (Inl e, s') \<Rightarrow> (Inl e, s')
       | (Inr (m, v, lv), s') \<Rightarrow>
           (if length t \<noteq> length x then Inl RuntimeError
            else and_then (bcast2 (\<lambda>m lv. m * exp ((1 / 2) * lv))
                             (map (\<lambda>i. 1 - (if i = 0 then 1 else 0)) t) lv) (\<lambda>c.
                 and_then (coef_mul c (noise_like g x repeat_noise)) (\<lambda>z. tadd m z)), s'))"
  unfolding p_sample_def seq_def Let_def
  by (simp add: lift_def split: prod.splits sum.splits)

text \<open>
  Claim C7. When every timestep of the batch is 0, \<open>p_sample\<close> returns the same result
  and leaves the same state whatever the source of fresh noise is; and when the
  posterior mean is computed (with one timestep per batch entry), that mean is the
  result.
\<close>

theorem p_sample_final_step_ignores_noise:
  assumes t0: "list_all (\<lambda>i. i = 0) t"
  shows "p_sample den self g1 x t cond ref repeat_noise s =
           p_sample den self g2 x t cond ref repeat_noise s \<and>
         (\<forall>m v lv s'. p_mean_variance den self x t cond ref s = (Inr (m, v, lv), s') \<and>
                       length t = length x \<longrightarrow>
            p_sample den self g1 x t cond ref repeat_noise s = (Inr m, s'))"
proof -
  define msk where "msk = map (\<lambda>i. 1 - (if i = 0 then 1 else 0 :: real)) t"
  define tail where "tail = (\<lambda>g (m :: tensor) (lv :: real list).
      and_then (bcast2 (\<lambda>m lv. m * exp ((1 / 2) * lv)) msk lv) (\<lambda>c.
      and_then (coef_mul c (noise_like g x repeat_noise)) (\<lambda>z. tadd m z)))"
  have mz: "list_all (\<lambda>m. m = 0) msk"
    using t0 by (auto simp: msk_def list_all_iff)
  have unfold: "p_sample den self g x t cond ref repeat_noise s =
      (case p_mean_variance den self x t cond ref s of
         (Inl e, s') \<Rightarrow> (Inl e, s')
       | (Inr (m, v, lv), s') \<Rightarrow>
           (if length t \<noteq> length x then Inl RuntimeError else tail g m lv, s'))" for g
    unfolding tail_def msk_def by (rule p_sample_unfold)
  have indep: "tail g1 m lv = tail g2 m lv" for m lv
  proof (cases "bcast2 (\<lambda>m lv. m * exp ((1 / 2) * lv)) msk lv")
    case (Inl e)
    show ?thesis
      unfolding tail_def Inl and_then_simps ..
  next
    case (Inr cs)
    then have "list_all (\<lambda>c. c = 0) cs"
      by (rule bcast2_mask_zero [OF mz])
    then have "coef_mul cs (noise_like g1 x repeat_noise) = coef_mul cs (noise_like g2 x repeat_noise)"
      by (rule coef_mul_zero_indep) (simp add: shape_noise_like)
    then show ?thesis
      unfolding tail_def Inr and_then_simps by simp
  qed
  have mean: "tail g m lv = Inr m"
    if pm: "p_mean_variance den self x t cond ref s = (Inr (m, v, lv), s')"
      and lt: "length t = length x" for g m v lv s'
  proof -
    from pm obtain xs where "q_posterior self xs x t = Inr (m, v, lv)"
      by (rule p_mean_variance_InrD)
    then obtain a b c2 where c2: "length c2 = length t" "coef_mul c2 x = Inr b"
        and ab: "tadd a b = Inr m" and llv: "length lv = length t"
      by (rule q_posterior_InrD)
    define cs where "cs = map2 (\<lambda>m lv. m * exp ((1 / 2) * lv)) msk lv"
    define z where "z = map2 (\<lambda>ci blk. map (\<lambda>v. ci * v) blk) cs (noise_like g x repeat_noise)"
    have lmsk: "length msk = length t"
      by (simp add: msk_def)
    have bc: "bcast2 (\<lambda>m lv. m * exp ((1 / 2) * lv)) msk lv = Inr cs"
      unfolding cs_def using lmsk llv by (intro bcast2_same) simp
    then have cz: "list_all (\<lambda>c. c = 0) cs"
      by (rule bcast2_mask_zero [OF mz])
    have lcs: "length cs = length x"
      using lmsk llv lt by (simp add: cs_def)
    have ln: "length (noise_like g x repeat_noise) = length x"
      using shape_noise_like [of g x repeat_noise] by (rule map_eq_imp_length_eq)
    have cm: "coef_mul cs (noise_like g x repeat_noise) = Inr z"
      unfolding z_def coef_mul_def using lcs ln by (intro bcast2_same) simp
    have bd: "b = map2 (\<lambda>ci blk. map (\<lambda>v. ci * v) blk) c2 x"
      using c2 lt by (simp add: coef_mul_def bcast2_same)
    have shb: "map length b = map length x"
      unfolding bd using c2(1) lt by (intro shape_coef) simp
    have "map length z = map length (noise_like g x repeat_noise)"
      unfolding z_def using lcs ln by (intro shape_coef) simp
    then have shz: "map length z = map length x"
      by (simp add: shape_noise_like)
    have zz: "list_all (list_all (\<lambda>v. v = 0)) z"
      unfolding z_def using cz by (auto simp: list_all_iff dest!: set_zip_leftD)
    have "map length z = map length b"
      using shz shb by simp
    with ab [unfolded tadd_def] have "tadd m z = Inr m"
      using zz by (rule tensor_op_absorb)
    then show ?thesis
      unfolding tail_def bc and_then_simps cm .
  qed
  show ?thesis
  proof (intro conjI allI impI)
    show "p_sample den self g1 x t cond ref repeat_noise s =
            p_sample den self g2 x t cond ref repeat_noise s"
      unfolding unfold by (simp add: indep split: prod.splits sum.splits)
  next
    fix m v lv s'
    assume a: "p_mean_variance den self x t cond ref s = (Inr (m, v, lv), s') \<and> length t = length x"
    then have "tail g1 m lv = Inr m"
      using mean by blast
    with a show "p_sample den self g1 x t cond ref repeat_noise s = (Inr m, s')"
      unfolding unfold by simp
  qed
qed

lemma sqrt_recip_bounds: "0 < sqrt (10000 / 9999 :: real)" "sqrt (10000 / 9999 :: real) \<le> 2"
proof -
  show "0 < sqrt (10000 / 9999 :: real)" by simp
  have "sqrt (10000 / 9999 :: real) \<le> sqrt 4"
    by (subst real_sqrt_le_iff) simp
  then show "sqrt (10000 / 9999 :: real) \<le> 2" by simp
qed

lemma sqrt_recip_not_neg:
  "\<not> sqrt (10000 / 9999 :: real) \<le> - 2" "\<not> sqrt (10000 / 9999 :: real) \<le> - 4"
proof -
  have "0 \<le> sqrt (10000 / 9999 :: real)"
    by (rule real_sqrt_ge_zero) simp
  then show "\<not> sqrt (10000 / 9999 :: real) \<le> - 2" "\<not> sqrt (10000 / 9999 :: real) \<le> - 4"
    by linarith+
qed

lemma mean_at_final_step:
  "p_mean_variance (\<lambda>inp t r. [[0, 0]]) (register_buffers [1 / 10000] 2 1 (- 12) 2)
       [[1 / 2, - 1 / 4]] [0] [[]] () \<lparr>noise_list = [], calls = []\<rparr> =
     (Inr ([[sqrt (10000 / 9999) * (1 / 2), sqrt (10000 / 9999) * (- 1 / 4)]],
           [0], [ln (1 / 10 ^ 20)]),
      \<lparr>noise_list = [], calls = [([[1 / 2, - 1 / 4]], TTensor [0])]\<rparr>)"
  using sqrt_recip_bounds
  by (simp add: sqrt_recip_not_neg p_mean_variance_def act_defs predict_start_from_noise_def q_posterior_def
      tensor_defs register_buffers_def Let_def np_cumprod_def min_def max_def)

theorem p_sample_final_step_ignores_noise_witness:
  "list_all (\<lambda>i. i = 0) [0 :: int] \<and>
   p_sample (\<lambda>inp t r. [[0, 0]]) (register_buffers [1 / 10000] 2 1 (- 12) 2) (\<lambda>b j. 1)
       [[1 / 2, - 1 / 4]] [0] [[]] () False \<lparr>noise_list = [], calls = []\<rparr> =
   p_sample (\<lambda>inp t r. [[0, 0]]) (register_buffers [1 / 10000] 2 1 (- 12) 2) (\<lambda>b j. - 3)
       [[1 / 2, - 1 / 4]] [0] [[]] () False \<lparr>noise_list = [], calls = []\<rparr> \<and>
   p_sample (\<lambda>inp t r. [[0, 0]]) (register_buffers [1 / 10000] 2 1 (- 12) 2) (\<lambda>b j. 1)
       [[1 / 2, - 1 / 4]] [0] [[]] () False \<lparr>noise_list = [], calls = []\<rparr> =
     (Inr [[sqrt (10000 / 9999) * (1 / 2), sqrt (10000 / 9999) * (- 1 / 4)]],
      \<lparr>noise_list = [], calls = [([[1 / 2, - 1 / 4]], TTensor [0])]\<rparr>)"
proof -
  have z: "list_all (\<lambda>i. i = 0) [0 :: int]" by simp
  note T = p_sample_final_step_ignores_noise [OF z, of "\<lambda>inp t r. [[0, 0]]"
      "register_buffers [1 / 10000] 2 1 (- 12) 2" "\<lambda>b j. 1" "[[1 / 2, - 1 / 4]]" "[[]]" "()" False
      "\<lparr>noise_list = [], calls = []\<rparr>" "\<lambda>b j. - 3"]
  have l: "length [0 :: int] = length [[1 / 2, - 1 / 4 :: real]]" by simp
  from T [THEN conjunct1] T [THEN conjunct2, rule_format, OF conjI, OF mean_at_final_step l] z
  show ?thesis by blast
qed

end
